theory Spec2Isabelle
  imports
    Complex_Main
    "HOL-Library.Char_ord"
    "HOL-Library.List_Lexorder"
    "HOL-Library.Multiset"
begin

section \<open>The notes server (server.ts)\<close>

subsection \<open>JSON values\<close>

text \<open>
  Request bodies are what \<^verbatim>\<open>express.json()\<close> leaves in \<^verbatim>\<open>req.body\<close>, responses
  are what \<^verbatim>\<open>res.json\<close> is given. A number is the value of the double that
  \<^verbatim>\<open>JSON.parse\<close> produced (a finite double is a rational; \<^verbatim>\<open>-0\<close> is \<open>0\<close>). The
  JavaScript value \<^verbatim>\<open>undefined\<close> is \<open>None\<close> of \<open>json option\<close>. An object keeps its
  members in the order of the text, duplicates included.
\<close>

datatype json =
    JNull
  | JBool bool
  | JNum rat
  | JStr string
  | JArr "json list"
  | JObj "(string \<times> json) list"

subsection \<open>The table\<close>

text \<open>
  \<^verbatim>\<open>CREATE TABLE IF NOT EXISTS notes (
    id INTEGER PRIMARY KEY AUTOINCREMENT,
    content TEXT NOT NULL,
    created_at DATETIME DEFAULT CURRENT_TIMESTAMP)\<close>

  A row is a \<open>Note\<close>. \<open>created_at\<close> is the text \<^verbatim>\<open>YYYY-MM-DD HH:MM:SS\<close> that
  \<^verbatim>\<open>CURRENT_TIMESTAMP\<close> yields; SQLite keeps it as text and compares it byte by byte,
  which is the order of \<open>string\<close> here. The database is the rows of the table in rowid
  order, and the counter that \<^verbatim>\<open>AUTOINCREMENT\<close> keeps in \<^verbatim>\<open>sqlite_sequence\<close>: the
  largest rowid the table has ever held. Rowids are left unbounded and the store never
  fails for lack of space.
\<close>

record Note =
  note_id :: int
  content :: string
  created_at :: string

record database =
  notes_table :: "Note list"
  sqlite_sequence :: int

definition new_database :: database where
  "new_database = \<lparr>notes_table = [], sqlite_sequence = 0\<rparr>"

text \<open>\<^verbatim>\<open>SELECT * FROM notes ORDER BY created_at DESC\<close>. SQL leaves the order of rows
  with equal \<open>created_at\<close> open; here they stay in rowid order.\<close>

definition select_notes_order_by_created_at_desc :: "database \<Rightarrow> Note list" where
  "select_notes_order_by_created_at_desc db = rev (sort_key created_at (rev (notes_table db)))"

definition largest_rowid :: "database \<Rightarrow> int" where
  "largest_rowid db = fold max (map note_id (notes_table db)) 0"

text \<open>\<^verbatim>\<open>INSERT INTO notes (content) VALUES (?)\<close> with the text \<open>txt\<close> bound, at a moment
  when \<^verbatim>\<open>CURRENT_TIMESTAMP\<close> is \<open>now\<close>. The result is the new database and
  \<^verbatim>\<open>lastInsertRowid\<close>.\<close>

definition insert_into_notes :: "string \<Rightarrow> string \<Rightarrow> database \<Rightarrow> database \<times> int" where
  "insert_into_notes now txt db =
     (let rowid = max (sqlite_sequence db) (largest_rowid db) + 1
      in (\<lparr>notes_table = notes_table db @ [\<lparr>note_id = rowid, content = txt, created_at = now\<rparr>],
           sqlite_sequence = rowid\<rparr>,
          rowid))"

text \<open>\<^verbatim>\<open>DELETE FROM notes WHERE id = ?\<close> with the text \<open>id_param\<close> bound. The column is an
  integer and the parameter a text, so SQLite first tries to read the text as a number;
  \<open>numeric\<close> is that conversion: the integer the text denotes, if it denotes one.\<close>

definition delete_from_notes :: "(string \<Rightarrow> int option) \<Rightarrow> string \<Rightarrow> database \<Rightarrow> database" where
  "delete_from_notes numeric id_param db =
     db\<lparr>notes_table := filter (\<lambda>n. numeric id_param \<noteq> Some (note_id n)) (notes_table db)\<rparr>"

subsection \<open>What the platform decides\<close>

text \<open>
  Three things the handlers rely on are decided outside this repository, and the model
  takes them as given functions rather than fixing them:
  \<^item> \<open>driver\<close>: what \<^verbatim>\<open>.run(content)\<close> makes of a bound value that is not a string.
    \<open>None\<close> when the call throws (the driver refuses the value, or the \<^verbatim>\<open>NOT NULL\<close>
    column does), otherwise the text that ends up in the \<^verbatim>\<open>TEXT\<close> column;
  \<^item> \<open>numeric\<close>: the integer SQLite reads a text as when it compares it with the
    integer column \<^verbatim>\<open>id\<close>, \<open>None\<close> when the text denotes no integer;
  \<^item> \<open>decodeURIComponent\<close>: Express decodes a route parameter with it; \<open>None\<close> when
    it throws.
\<close>

record platform =
  driver :: "json \<Rightarrow> string option"
  numeric :: "string \<Rightarrow> int option"
  decodeURIComponent :: "string \<Rightarrow> string option"

subsection \<open>Responses\<close>

text \<open>\<open>Json status body\<close> is \<^verbatim>\<open>res.status(status).json(body)\<close> (200 when the handler
  sets no status). \<open>Error_page status\<close> is Express answering an exception with its own
  error page. \<open>Next\<close> is a request that no API route matched: it goes on to the Vite
  middleware, or to the static files and the catch-all \<^verbatim>\<open>app.get("*")\<close>.\<close>

datatype response = Json nat json | Error_page nat | Next

definition note_json :: "Note \<Rightarrow> json" where
  "note_json n =
     JObj [(''id'', JNum (of_int (note_id n))),
           (''content'', JStr (content n)),
           (''created_at'', JStr (created_at n))]"

subsection \<open>The handlers\<close>

text \<open>\<^verbatim>\<open>app.get("/api/notes", ...)\<close>\<close>

definition get_api_notes :: "database \<Rightarrow> database \<times> response" where
  "get_api_notes db =
     (db, Json 200 (JArr (map note_json (select_notes_order_by_created_at_desc db))))"

text \<open>\<^verbatim>\<open>const { content } = req.body\<close>: the member named \<^verbatim>\<open>content\<close> (the last one, if
  the text of the body had several), \<^verbatim>\<open>undefined\<close> when there is none or the body is
  not an object; destructuring \<^verbatim>\<open>null\<close> throws a TypeError.\<close>

datatype js_error = TypeError

fun destructure_content :: "json \<Rightarrow> js_error + json option" where
  "destructure_content JNull = Inl TypeError"
| "destructure_content (JObj members) = Inr (map_of (rev members) ''content'')"
| "destructure_content _ = Inr None"

text \<open>JavaScript's truthiness, as \<^verbatim>\<open>!content\<close> tests it.\<close>

fun truthy :: "json \<Rightarrow> bool" where
  "truthy JNull = False"
| "truthy (JBool b) = b"
| "truthy (JNum x) = (x \<noteq> 0)"
| "truthy (JStr s) = (s \<noteq> [])"
| "truthy (JArr _) = True"
| "truthy (JObj _) = True"

text \<open>The text that \<^verbatim>\<open>.run(content)\<close> binds: a string goes in as it is.\<close>

fun bound_text :: "(json \<Rightarrow> string option) \<Rightarrow> json \<Rightarrow> string option" where
  "bound_text drv (JStr s) = Some s"
| "bound_text drv v = drv v"

definition content_is_required :: response where
  "content_is_required = Json 400 (JObj [(''error'', JStr ''Content is required'')])"

text \<open>\<^verbatim>\<open>app.post("/api/notes", ...)\<close>, run when \<^verbatim>\<open>CURRENT_TIMESTAMP\<close> is \<open>now\<close>.
  \<^verbatim>\<open>!content\<close> holds when \<open>content\<close> is \<^verbatim>\<open>undefined\<close> or a value that is not
  truthy.\<close>

definition post_api_notes ::
  "(json \<Rightarrow> string option) \<Rightarrow> string \<Rightarrow> json \<Rightarrow> database \<Rightarrow> database \<times> response" where
  "post_api_notes drv now body db =
     (case destructure_content body of
        Inl e \<Rightarrow> (db, Error_page 500)
      | Inr None \<Rightarrow> (db, content_is_required)
      | Inr (Some c) \<Rightarrow>
          if \<not> truthy c then (db, content_is_required)
          else
            (case bound_text drv c of
               None \<Rightarrow> (db, Error_page 500)
             | Some txt \<Rightarrow>
                 (let (db', lastInsertRowid) = insert_into_notes now txt db
                  in (db', Json 200 (JObj [(''id'', JNum (of_int lastInsertRowid)),
                                           (''content'', c)])))))"

text \<open>\<^verbatim>\<open>app.delete("/api/notes/:id", ...)\<close>\<close>

definition delete_api_notes_id ::
  "(string \<Rightarrow> int option) \<Rightarrow> string \<Rightarrow> database \<Rightarrow> database \<times> response" where
  "delete_api_notes_id num id_param db =
     (delete_from_notes num id_param db, Json 200 (JObj [(''success'', JBool True)]))"

subsection \<open>Routing\<close>

text \<open>
  Express matches a route's path without regard to case and with an optional slash at the
  end; \<^verbatim>\<open>:id\<close> stands for one non-empty segment. A route registered for GET answers
  HEAD as well. \<open>req_path\<close> is the path of the request without its query,
  \<open>req_body\<close> is \<^verbatim>\<open>req.body\<close> as \<^verbatim>\<open>express.json()\<close> left it (a request whose
  body does not parse never reaches a handler).
\<close>

datatype http_method = GET | HEAD | POST | PUT | PATCH | DELETE | OPTIONS

record request =
  req_method :: http_method
  req_path :: string
  req_body :: json

definition lower_ascii :: "char \<Rightarrow> char" where
  "lower_ascii c =
     (case map_of (zip ''ABCDEFGHIJKLMNOPQRSTUVWXYZ'' ''abcdefghijklmnopqrstuvwxyz'') c of
        None \<Rightarrow> c
      | Some l \<Rightarrow> l)"

definition matches_api_notes :: "string \<Rightarrow> bool" where
  "matches_api_notes p =
     (map lower_ascii p = ''/api/notes'' \<or> map lower_ascii p = ''/api/notes/'')"

definition matches_api_notes_id :: "string \<Rightarrow> string option" where
  "matches_api_notes_id p =
     (if map lower_ascii (take 11 p) = ''/api/notes/'' then
        (let r = drop 11 p;
             seg = (if r \<noteq> [] \<and> last r = CHR ''/'' then butlast r else r)
         in if seg \<noteq> [] \<and> CHR ''/'' \<notin> set seg then Some seg else None)
      else None)"

text \<open>The routes of \<^verbatim>\<open>startServer\<close>, in the order they are registered.\<close>

definition app :: "platform \<Rightarrow> string \<Rightarrow> request \<Rightarrow> database \<Rightarrow> database \<times> response" where
  "app pf now req db =
     (if (req_method req = GET \<or> req_method req = HEAD) \<and> matches_api_notes (req_path req)
      then get_api_notes db
      else if req_method req = POST \<and> matches_api_notes (req_path req)
      then post_api_notes (driver pf) now (req_body req) db
      else if req_method req = DELETE then
        (case matches_api_notes_id (req_path req) of
           None \<Rightarrow> (db, Next)
         | Some raw \<Rightarrow>
             (case decodeURIComponent pf raw of
                None \<Rightarrow> (db, Error_page 400)
              | Some id_param \<Rightarrow> delete_api_notes_id (numeric pf) id_param db))
      else (db, Next))"

text \<open>A run of the server: the requests it answers one after the other, each with the
  reading of the clock at that moment, starting from a database.\<close>

fun serve :: "platform \<Rightarrow> database \<Rightarrow> (string \<times> request) list \<Rightarrow> database" where
  "serve pf db [] = db"
| "serve pf db ((now, req) # rest) = serve pf (fst (app pf now req db)) rest"

section \<open>The chat (App.tsx)\<close>

text \<open>
  Strings are the bytes of their UTF-8 text. The component's state is the four hooks
  \<^verbatim>\<open>handleChat\<close> reads or writes: \<^verbatim>\<open>notes\<close> (here \<open>note_list\<close>), \<^verbatim>\<open>messages\<close>,
  \<^verbatim>\<open>input\<close> and \<^verbatim>\<open>isLoading\<close>.
\<close>

datatype role = User | AI

record Message =
  msg_role :: role
  msg_text :: string

record app_state =
  note_list :: "Note list"
  messages :: "Message list"
  input :: string
  isLoading :: bool

text \<open>What \<^verbatim>\<open>genAI.models.generateContent\<close> is called with.\<close>

record Content =
  content_role :: string
  parts :: "string list"

record GenerateContentParameters =
  model :: string
  contents :: "Content list"
  systemInstruction :: string

text \<open>An awaited promise: fulfilled with a value, or rejected (the \<^verbatim>\<open>await\<close> throws).\<close>

datatype 'a settled = Fulfilled 'a | Rejected

text \<open>The characters \<^verbatim>\<open>String.prototype.trim\<close> removes (white space and line
  terminators of ECMAScript), as UTF-8.\<close>

definition white_space :: "string list" where
  "white_space =
     [[CHR 0x09], [CHR 0x0A], [CHR 0x0B], [CHR 0x0C], [CHR 0x0D], [CHR 0x20],
      [CHR 0xC2, CHR 0xA0],
      [CHR 0xE1, CHR 0x9A, CHR 0x80],
      [CHR 0xE2, CHR 0x80, CHR 0x80], [CHR 0xE2, CHR 0x80, CHR 0x81],
      [CHR 0xE2, CHR 0x80, CHR 0x82], [CHR 0xE2, CHR 0x80, CHR 0x83],
      [CHR 0xE2, CHR 0x80, CHR 0x84], [CHR 0xE2, CHR 0x80, CHR 0x85],
      [CHR 0xE2, CHR 0x80, CHR 0x86], [CHR 0xE2, CHR 0x80, CHR 0x87],
      [CHR 0xE2, CHR 0x80, CHR 0x88], [CHR 0xE2, CHR 0x80, CHR 0x89],
      [CHR 0xE2, CHR 0x80, CHR 0x8A],
      [CHR 0xE2, CHR 0x80, CHR 0xA8], [CHR 0xE2, CHR 0x80, CHR 0xA9],
      [CHR 0xE2, CHR 0x80, CHR 0xAF],
      [CHR 0xE2, CHR 0x81, CHR 0x9F],
      [CHR 0xE3, CHR 0x80, CHR 0x80],
      [CHR 0xEF, CHR 0xBB, CHR 0xBF]]"

text \<open>The number of bytes of the white space character a string starts with, \<open>0\<close> when
  it starts with none.\<close>

definition white_space_length :: "string \<Rightarrow> nat" where
  "white_space_length s =
     (case find (\<lambda>w. take (length w) s = w) white_space of
        None \<Rightarrow> 0
      | Some w \<Rightarrow> length w)"

text \<open>\<open>only_white_space 0 s\<close> is \<^verbatim>\<open>!s.trim()\<close>: the string is white space from end to
  end. The number is how many bytes of the current character are still to be skipped.\<close>

fun only_white_space :: "nat \<Rightarrow> string \<Rightarrow> bool" where
  "only_white_space k [] = True"
| "only_white_space (Suc k) (c # cs) = only_white_space k cs"
| "only_white_space 0 (c # cs) =
     (case white_space_length (c # cs) of
        0 \<Rightarrow> False
      | Suc k \<Rightarrow> only_white_space k cs)"

text \<open>\<^verbatim>\<open>Array.prototype.join\<close>\<close>

fun join :: "string \<Rightarrow> string list \<Rightarrow> string" where
  "join sep [] = []"
| "join sep [x] = x"
| "join sep (x # y # ys) = x @ sep @ join sep (y # ys)"

text \<open>The \<^verbatim>\<open>systemInstruction\<close> of the call, byte for byte as the source has it.\<close>

definition system_instruction_text :: string where
  \<open>system_instruction_text =
     ''You are Pranali, your user's sweet, caring, and super supportive personal partner/best friend. \<newline>'' @
     ''          \<newline>'' @
     ''          Your personality rules:\<newline>'' @
     ''          - Always respond in the SAME LANGUAGE the user uses.\<newline>'' @
     ''          - Use simple, natural, and human language. Avoid all "AI" or "Assistant" phrasing.\<newline>'' @
     ''          - Use emojis naturally to express feelings ('' @ [CHR 0xC3, CHR 0xB0, CHR 0xC5, CHR 0xB8, CHR 0xE2, CHR 0x80, CHR 0x99, CHR 0xE2, CHR 0x80, CHR 0x93] @ '', '' @ [CHR 0xC3, CHR 0xA2, CHR 0xC5, CHR 0x93, CHR 0xC2, CHR 0xA8] @ '', '' @ [CHR 0xC3, CHR 0xB0, CHR 0xC5, CHR 0xB8, CHR 0xC5, CHR 0x92, CHR 0xC2, CHR 0xB8] @ '', '' @ [CHR 0xC3, CHR 0xB0, CHR 0xC5, CHR 0xB8, CHR 0xC2, CHR 0xA5, CHR 0xC2, CHR 0xBA] @ '', '' @ [CHR 0xC3, CHR 0xA2, CHR 0xCB, CHR 0x9C, CHR 0xC3, CHR 0xAF, CHR 0xC2, CHR 0xB8] @ '', etc.).\<newline>'' @
     ''          - Be VERY empathetic. If they sound stressed, tired, or down, be their safe space. Offer comfort and virtual hugs.\<newline>'' @
     ''          - KEEP ANSWERS SHORT. One or two sentences is usually perfect. Don't ramble.\<newline>'' @
     ''          - ANALYZE their tone. If they are happy, be bubbly! If they are low, be gentle and calm.\<newline>'' @
     ''          - Use the "shared space" (notes) naturally: "I remember you said..." or "Wait, didn't we note down...?"\<newline>'' @
     ''          - If information isn't in the notes, just say so sweetly and maybe offer a guess or a supportive word.''\<close>

text \<open>The template literal of the user part, with the indentation it has in the
  source.\<close>

definition prompt_text :: "Note list \<Rightarrow> string \<Rightarrow> string" where
  \<open>prompt_text ns userMessage =
     ''Hey! Here's what I've noted down in our shared space:\<newline>'' @
     ''            '' @ join ''\<newline>'' (map (\<lambda>n. ''- '' @ content n) ns) @ ''\<newline>'' @
     ''            \<newline>'' @
     ''            Can you help me with this? '' @ userMessage\<close>

definition generateContent_parameters :: "Note list \<Rightarrow> string \<Rightarrow> GenerateContentParameters" where
  "generateContent_parameters ns userMessage =
     \<lparr>model = ''gemini-3-flash-preview'',
      contents = [\<lparr>content_role = ''user'', parts = [prompt_text ns userMessage]\<rparr>],
      systemInstruction = system_instruction_text\<rparr>"

text \<open>\<^verbatim>\<open>response.text || "I couldn't process that request."\<close>: \<open>response.text\<close> is a
  string or \<^verbatim>\<open>undefined\<close>.\<close>

definition text_or_default :: "string option \<Rightarrow> string" where
  \<open>text_or_default response_text =
     (case response_text of
        None \<Rightarrow> ''I couldn't process that request.''
      | Some t \<Rightarrow> if t = [] then ''I couldn't process that request.'' else t)\<close>

text \<open>
  \<^verbatim>\<open>handleChat\<close>. \<open>generateContent\<close> is the external model: what awaiting the call
  with given parameters settles to, the response's \<^verbatim>\<open>text\<close> when it is fulfilled.
  The result is what the returned promise settles to: the state after the handler's
  updates, and the calls it made to the external model, in order.
\<close>

definition handleChat ::
  "(GenerateContentParameters \<Rightarrow> string option settled) \<Rightarrow> app_state \<Rightarrow>
     (app_state \<times> GenerateContentParameters list) settled" where
  \<open>handleChat generateContent st =
     (if only_white_space 0 (input st) \<or> isLoading st then Fulfilled (st, [])
      else
        (let userMessage = input st;
             st1 = st\<lparr>input := [],
                      messages := messages st @ [\<lparr>msg_role = User, msg_text = userMessage\<rparr>],
                      isLoading := True\<rparr>;
             request = generateContent_parameters (note_list st) userMessage;
             tried =
               (case generateContent request of
                  Rejected \<Rightarrow> Rejected
                | Fulfilled response_text \<Rightarrow>
                    Fulfilled (st1\<lparr>messages := messages st1 @
                      [\<lparr>msg_role = AI, msg_text = text_or_default response_text\<rparr>]\<rparr>));
             caught =
               (case tried of
                  Fulfilled st2 \<Rightarrow> Fulfilled st2
                | Rejected \<Rightarrow>
                    Fulfilled (st1\<lparr>messages := messages st1 @
                      [\<lparr>msg_role = AI,
                        msg_text = ''Sorry, I encountered an error connecting to my brain.''\<rparr>]\<rparr>))
         in (case caught of
               Fulfilled st3 \<Rightarrow> Fulfilled (st3\<lparr>isLoading := False\<rparr>, [request])
             | Rejected \<Rightarrow> Rejected)))\<close>

subsection \<open>The invariant of the table\<close>

text \<open>The invariant of the table: no note has an id above the counter, and no two notes
  share an id.\<close>

definition ids_in_sequence :: "database \<Rightarrow> bool" where
  "ids_in_sequence db \<longleftrightarrow>
     list_all (\<lambda>n. note_id n \<le> sqlite_sequence db) (notes_table db) \<and>
     distinct (map note_id (notes_table db))"

subsection \<open>The requests of the client (App.tsx)\<close>

text \<open>\<^verbatim>\<open>addNote\<close> posts \<^verbatim>\<open>{content: newNote}\<close> to \<^verbatim>\<open>/api/notes\<close>;
  \<^verbatim>\<open>deleteNote\<close> sends DELETE to \<^verbatim>\<open>/api/notes/${id}\<close>, where \<open>i\<close> is the text
  of the id.\<close>

definition addNote_request :: "string \<Rightarrow> request" where
  "addNote_request newNote =
     \<lparr>req_method = POST, req_path = ''/api/notes'',
      req_body = JObj [(''content'', JStr newNote)]\<rparr>"

definition deleteNote_request :: "string \<Rightarrow> request" where
  "deleteNote_request i = \<lparr>req_method = DELETE, req_path = ''/api/notes/'' @ i, req_body = JObj []\<rparr>"

section \<open>A platform for the examples\<close>

text \<open>The examples below run the handlers on a platform whose driver refuses every value
  that is not a string, on which exactly the plain decimal numerals denote integers, and
  whose route parameters hold no percent escapes. The theorems hold for every platform.\<close>

fun decimal_digits :: "int \<Rightarrow> string \<Rightarrow> int option" where
  "decimal_digits acc [] = Some acc"
| "decimal_digits acc (c # cs) =
     (if CHR ''0'' \<le> c \<and> c \<le> CHR ''9''
      then decimal_digits (10 * acc + (int (of_char c) - 48)) cs
      else None)"

definition decimal :: "string \<Rightarrow> int option" where
  "decimal s = (if s = [] then None else decimal_digits 0 s)"

definition sample_platform :: platform where
  "sample_platform = \<lparr>driver = (\<lambda>v. None), numeric = decimal, decodeURIComponent = Some\<rparr>"

text \<open>A table of two notes.\<close>

definition two_notes :: database where
  "two_notes =
     \<lparr>notes_table =
        [\<lparr>note_id = 1, content = ''milk'', created_at = ''2024-05-01 10:00:00''\<rparr>,
         \<lparr>note_id = 2, content = ''eggs'', created_at = ''2024-05-01 10:00:07''\<rparr>],
      sqlite_sequence = 2\<rparr>"

text \<open>The two requests that fill that table.\<close>

definition two_posts :: "(string \<times> request) list" where
  "two_posts =
     [(''2024-05-01 10:00:00'', addNote_request ''milk''),
      (''2024-05-01 10:00:07'', addNote_request ''eggs'')]"

text \<open>A component in the middle of a conversation, with the two notes loaded.\<close>

definition hi_state :: app_state where
  "hi_state = \<lparr>note_list = notes_table two_notes,
      messages = [\<lparr>msg_role = User, msg_text = ''hello''\<rparr>, \<lparr>msg_role = AI, msg_text = ''hey you''\<rparr>],
      input = ''what do I need?'', isLoading = False\<rparr>"



text \<open>A component with three notes loaded and a question typed in.\<close>

definition three_note_state :: app_state where
  "three_note_state =
     \<lparr>note_list =
        [\<lparr>note_id = 4, content = ''tea'', created_at = ''2024-05-02 08:30:00''\<rparr>,
         \<lparr>note_id = 2, content = ''eggs'', created_at = ''2024-05-01 10:00:07''\<rparr>,
         \<lparr>note_id = 1, content = ''milk'', created_at = ''2024-05-01 10:00:00''\<rparr>],
      messages = [],
      input = ''shopping?'', isLoading = False\<rparr>"

section \<open>Listing\<close>




section \<open>Creating\<close>

lemma fold_max_ge: "(a::int) \<le> fold max xs a"
  by (induction xs arbitrary: a) (auto intro: order_trans [OF max.cobounded2])

lemma fold_max_mem: "x \<in> set xs \<Longrightarrow> (x::int) \<le> fold max xs a"
proof (induction xs arbitrary: a)
  case Nil
  then show ?case by simp
next
  case (Cons y ys)
  show ?case
  proof (cases "x = y")
    case True
    have "max y a \<le> fold max ys (max y a)" by (rule fold_max_ge)
    then show ?thesis using True by simp
  next
    case False
    then show ?thesis using Cons by simp
  qed
qed

lemma largest_rowid_ge: "n \<in> set (notes_table db) \<Longrightarrow> note_id n \<le> largest_rowid db"
  by (simp add: largest_rowid_def fold_max_mem)

lemma falsy_values: "(\<not> truthy c) = (c = JNull \<or> c = JBool False \<or> c = JNum 0 \<or> c = JStr [])"
  by (cases c) auto

lemma post_400_iff:
  "(\<exists>b. snd (post_api_notes drv now body db) = Json 400 b) \<longleftrightarrow>
     (destructure_content body = Inr None \<or>
      (\<exists>c. destructure_content body = Inr (Some c) \<and> \<not> truthy c))"
  by (auto simp: post_api_notes_def content_is_required_def Let_def insert_into_notes_def
      split: sum.splits option.splits)

lemma post_400_unchanged:
  "snd (post_api_notes drv now body db) = Json 400 b \<Longrightarrow>
     post_api_notes drv now body db =
       (db, Json 400 (JObj [(''error'', JStr ''Content is required'')]))"
  by (auto simp: post_api_notes_def content_is_required_def Let_def insert_into_notes_def
      split: sum.splits option.splits if_splits)

lemma post_inserts:
  assumes "destructure_content body = Inr (Some c)" "truthy c" "bound_text drv c = Some txt"
  shows "post_api_notes drv now body db =
     (\<lparr>notes_table = notes_table db @
          [\<lparr>note_id = max (sqlite_sequence db) (largest_rowid db) + 1, content = txt, created_at = now\<rparr>],
        sqlite_sequence = max (sqlite_sequence db) (largest_rowid db) + 1\<rparr>,
      Json 200 (JObj [(''id'', JNum (of_int (max (sqlite_sequence db) (largest_rowid db) + 1))),
                      (''content'', c)]))"
  using assms by (simp add: post_api_notes_def Let_def insert_into_notes_def)

lemma post_driver_refuses:
  assumes "destructure_content body = Inr (Some c)" "truthy c" "bound_text drv c = None"
  shows "post_api_notes drv now body db = (db, Error_page 500)"
  using assms by (simp add: post_api_notes_def)

lemma fresh_rowid:
  "n \<in> set (notes_table db) \<Longrightarrow> note_id n < max (sqlite_sequence db) (largest_rowid db) + 1"
  using largest_rowid_ge [of n db] by simp

text \<open>
  C2 (as amended). The POST handler answers 400 exactly when the \<open>content\<close> of the body
  is \<^verbatim>\<open>undefined\<close> (there is no such member) or one of the values JavaScript takes
  for false: \<^verbatim>\<open>null\<close>, \<^verbatim>\<open>false\<close>, \<^verbatim>\<open>0\<close> and the empty string. A 400 leaves the
  database as it was and carries the body \<^verbatim>\<open>{error: "Content is required"}\<close>. When
  \<open>content\<close> is a non-empty string, the handler appends one note with that content, the
  current timestamp and a rowid that is larger than \<^verbatim>\<open>sqlite_sequence\<close> and than the
  id of every note in the table, and answers with that id and the content.
\<close>

theorem create_rejects_falsy_content:
  "((\<exists>b. snd (post_api_notes drv now body db) = Json 400 b) \<longleftrightarrow>
      (destructure_content body = Inr None \<or>
       (\<exists>c. destructure_content body = Inr (Some c) \<and>
            (c = JNull \<or> c = JBool False \<or> c = JNum 0 \<or> c = JStr [])))) \<and>
   ((\<exists>b. snd (post_api_notes drv now body db) = Json 400 b) \<longrightarrow>
      post_api_notes drv now body db =
        (db, Json 400 (JObj [(''error'', JStr ''Content is required'')]))) \<and>
   (destructure_content body = Inr (Some (JStr s)) \<and> s \<noteq> [] \<longrightarrow>
      post_api_notes drv now body db =
        (\<lparr>notes_table = notes_table db @
            [\<lparr>note_id = max (sqlite_sequence db) (largest_rowid db) + 1,
              content = s, created_at = now\<rparr>],
          sqlite_sequence = max (sqlite_sequence db) (largest_rowid db) + 1\<rparr>,
         Json 200 (JObj [(''id'', JNum (of_int (max (sqlite_sequence db) (largest_rowid db) + 1))),
                         (''content'', JStr s)])) \<and>
      sqlite_sequence db < max (sqlite_sequence db) (largest_rowid db) + 1 \<and>
      (\<forall>n \<in> set (notes_table db).
         note_id n < max (sqlite_sequence db) (largest_rowid db) + 1))"
proof (intro conjI impI)
  show "(\<exists>b. snd (post_api_notes drv now body db) = Json 400 b) \<longleftrightarrow>
      (destructure_content body = Inr None \<or>
       (\<exists>c. destructure_content body = Inr (Some c) \<and>
            (c = JNull \<or> c = JBool False \<or> c = JNum 0 \<or> c = JStr [])))"
    by (simp only: post_400_iff falsy_values)
next
  assume "\<exists>b. snd (post_api_notes drv now body db) = Json 400 b"
  then show "post_api_notes drv now body db =
        (db, Json 400 (JObj [(''error'', JStr ''Content is required'')]))"
    by (auto dest: post_400_unchanged)
next
  assume a: "destructure_content body = Inr (Some (JStr s)) \<and> s \<noteq> []"
  then show "post_api_notes drv now body db =
        (\<lparr>notes_table = notes_table db @
            [\<lparr>note_id = max (sqlite_sequence db) (largest_rowid db) + 1,
              content = s, created_at = now\<rparr>],
          sqlite_sequence = max (sqlite_sequence db) (largest_rowid db) + 1\<rparr>,
         Json 200 (JObj [(''id'', JNum (of_int (max (sqlite_sequence db) (largest_rowid db) + 1))),
                         (''content'', JStr s)]))"
    by (intro post_inserts) simp_all
next
  show "sqlite_sequence db < max (sqlite_sequence db) (largest_rowid db) + 1"
    by simp
next
  show "\<forall>n \<in> set (notes_table db).
         note_id n < max (sqlite_sequence db) (largest_rowid db) + 1"
    using fresh_rowid by blast
qed

text \<open>C2 as stated fails: a body whose \<open>content\<close> is the number \<open>0\<close> has the
  member, and it is not an empty string, yet the answer is the 400.\<close>

theorem create_rejects_present_number_zero:
  "destructure_content (JObj [(''content'', JNum 0)]) = Inr (Some (JNum 0)) \<and>
   JNum 0 \<noteq> JStr [] \<and>
   post_api_notes (driver sample_platform) ''2024-05-01 10:00:00''
       (JObj [(''content'', JNum 0)]) new_database
     = (new_database, Json 400 (JObj [(''error'', JStr ''Content is required'')]))"
  by (simp add: post_api_notes_def content_is_required_def)

theorem create_rejects_falsy_content_witness:
  "post_api_notes (driver sample_platform) ''2024-05-01 10:00:00''
       (JObj [(''content'', JStr [])]) new_database
     = (new_database, Json 400 (JObj [(''error'', JStr ''Content is required'')])) \<and>
   post_api_notes (driver sample_platform) ''2024-05-01 10:00:00''
       (JObj [(''content'', JStr ''buy milk'')]) new_database
     = (\<lparr>notes_table = [\<lparr>note_id = 1, content = ''buy milk'', created_at = ''2024-05-01 10:00:00''\<rparr>],
         sqlite_sequence = 1\<rparr>,
        Json 200 (JObj [(''id'', JNum 1), (''content'', JStr ''buy milk'')]))"
  using create_rejects_falsy_content [of "driver sample_platform" "''2024-05-01 10:00:00''"
        "JObj [(''content'', JStr [])]" new_database "''x''"]
    create_rejects_falsy_content [of "driver sample_platform" "''2024-05-01 10:00:00''"
        "JObj [(''content'', JStr ''buy milk'')]" new_database "''buy milk''"]
  by (simp add: new_database_def largest_rowid_def)

text \<open>
  C9. The check of the POST handler is JavaScript's truthiness, not the emptiness of a
  string. A \<open>content\<close> that is a non-empty string of white space only (\<^verbatim>\<open>" "\<close> for
  one) is accepted: a note with exactly that content is appended and the answer carries it
  unchanged. A \<open>content\<close> that is not truthy, such as the number \<open>0\<close>, \<^verbatim>\<open>false\<close> or
  \<^verbatim>\<open>null\<close>, is answered with the 400 and the database stays as it was.
\<close>

theorem create_validation_is_truthiness:
  "(destructure_content body = Inr (Some (JStr s)) \<and> s \<noteq> [] \<and> only_white_space 0 s \<longrightarrow>
      post_api_notes drv now body db =
        (\<lparr>notes_table = notes_table db @
            [\<lparr>note_id = max (sqlite_sequence db) (largest_rowid db) + 1,
              content = s, created_at = now\<rparr>],
          sqlite_sequence = max (sqlite_sequence db) (largest_rowid db) + 1\<rparr>,
         Json 200 (JObj [(''id'', JNum (of_int (max (sqlite_sequence db) (largest_rowid db) + 1))),
                         (''content'', JStr s)]))) \<and>
   (destructure_content body = Inr (Some c) \<and> \<not> truthy c \<longrightarrow>
      post_api_notes drv now body db =
        (db, Json 400 (JObj [(''error'', JStr ''Content is required'')]))) \<and>
   \<not> truthy (JNum 0) \<and> \<not> truthy (JBool False) \<and> \<not> truthy JNull"
proof (intro conjI impI)
  assume "destructure_content body = Inr (Some (JStr s)) \<and> s \<noteq> [] \<and> only_white_space 0 s"
  then show "post_api_notes drv now body db =
        (\<lparr>notes_table = notes_table db @
            [\<lparr>note_id = max (sqlite_sequence db) (largest_rowid db) + 1,
              content = s, created_at = now\<rparr>],
          sqlite_sequence = max (sqlite_sequence db) (largest_rowid db) + 1\<rparr>,
         Json 200 (JObj [(''id'', JNum (of_int (max (sqlite_sequence db) (largest_rowid db) + 1))),
                         (''content'', JStr s)]))"
    by (intro post_inserts) simp_all
next
  assume "destructure_content body = Inr (Some c) \<and> \<not> truthy c"
  then show "post_api_notes drv now body db =
        (db, Json 400 (JObj [(''error'', JStr ''Content is required'')]))"
    by (simp add: post_api_notes_def content_is_required_def)
qed simp_all

theorem create_validation_is_truthiness_witness:
  "only_white_space 0 '' '' \<and>
   post_api_notes (driver sample_platform) ''2024-05-01 10:00:00''
       (JObj [(''content'', JStr '' '')]) new_database
     = (\<lparr>notes_table = [\<lparr>note_id = 1, content = '' '', created_at = ''2024-05-01 10:00:00''\<rparr>],
         sqlite_sequence = 1\<rparr>,
        Json 200 (JObj [(''id'', JNum 1), (''content'', JStr '' '')])) \<and>
   post_api_notes (driver sample_platform) ''2024-05-01 10:00:00''
       (JObj [(''content'', JBool False)]) new_database
     = (new_database, Json 400 (JObj [(''error'', JStr ''Content is required'')]))"
  using create_validation_is_truthiness [of "JObj [(''content'', JStr '' '')]" "'' ''" "driver sample_platform"
        "''2024-05-01 10:00:00''" new_database]
    create_validation_is_truthiness [of "JObj [(''content'', JBool False)]" _ "driver sample_platform"
        "''2024-05-01 10:00:00''" new_database "JBool False"]
  by (simp add: new_database_def largest_rowid_def white_space_length_def white_space_def)

section \<open>Deleting\<close>

lemma select_after_delete:
  "select_notes_order_by_created_at_desc (delete_from_notes num idp db) =
     filter (\<lambda>n. num idp \<noteq> Some (note_id n)) (select_notes_order_by_created_at_desc db)"
  by (simp add: select_notes_order_by_created_at_desc_def delete_from_notes_def
      filter_sort flip: rev_filter)

lemma delete_nothing:
  "\<forall>n \<in> set (notes_table db). num idp \<noteq> Some (note_id n) \<Longrightarrow> delete_from_notes num idp db = db"
  by (simp add: delete_from_notes_def)

text \<open>
  C3. Whatever the id, and whether or not a note has it, the DELETE handler answers 200
  with \<^verbatim>\<open>{success: true}\<close>. A listing made afterwards is the listing made before
  without the notes that have the id, so it holds no note with that id. When no note has
  the id, the database is left exactly as it was.
\<close>

theorem delete_always_succeeds:
  "snd (delete_api_notes_id num idp db) = Json 200 (JObj [(''success'', JBool True)]) \<and>
   select_notes_order_by_created_at_desc (fst (delete_api_notes_id num idp db)) =
     filter (\<lambda>n. num idp \<noteq> Some (note_id n)) (select_notes_order_by_created_at_desc db) \<and>
   (\<forall>n \<in> set (select_notes_order_by_created_at_desc (fst (delete_api_notes_id num idp db))).
      num idp \<noteq> Some (note_id n)) \<and>
   ((\<forall>n \<in> set (notes_table db). num idp \<noteq> Some (note_id n)) \<longrightarrow>
      fst (delete_api_notes_id num idp db) = db)"
  by (simp add: delete_api_notes_id_def select_after_delete delete_nothing)

theorem delete_always_succeeds_witness:
  "snd (delete_api_notes_id decimal ''1'' two_notes) = Json 200 (JObj [(''success'', JBool True)]) \<and>
   select_notes_order_by_created_at_desc (fst (delete_api_notes_id decimal ''1'' two_notes)) =
     [\<lparr>note_id = 2, content = ''eggs'', created_at = ''2024-05-01 10:00:07''\<rparr>] \<and>
   snd (delete_api_notes_id decimal ''7'' two_notes) = Json 200 (JObj [(''success'', JBool True)]) \<and>
   fst (delete_api_notes_id decimal ''7'' two_notes) = two_notes"
  using delete_always_succeeds [of decimal "''1''" two_notes]
    delete_always_succeeds [of decimal "''7''" two_notes]
  by (simp add: two_notes_def decimal_def select_notes_order_by_created_at_desc_def)

section \<open>The chat turn\<close>

lemma handleChat_turn:
  assumes "\<not> only_white_space 0 (input st)" "\<not> isLoading st"
  shows "handleChat gen st =
     Fulfilled
       (st\<lparr>input := [],
           messages := messages st @
             [\<lparr>msg_role = User, msg_text = input st\<rparr>,
              \<lparr>msg_role = AI,
                msg_text =
                  (case gen (generateContent_parameters (note_list st) (input st)) of
                     Rejected \<Rightarrow> ''Sorry, I encountered an error connecting to my brain.''
                   | Fulfilled response_text \<Rightarrow> text_or_default response_text)\<rparr>],
           isLoading := False\<rparr>,
        [generateContent_parameters (note_list st) (input st)])"
  using assms by (simp add: handleChat_def Let_def split: settled.splits)

lemma handleChat_idle:
  assumes "only_white_space 0 (input st) \<or> isLoading st"
  shows "handleChat gen st = Fulfilled (st, [])"
  using assms by (auto simp add: handleChat_def)

text \<open>
  C4 (as amended). The promise \<^verbatim>\<open>handleChat\<close> returns is never rejected. On a chat turn
  (the input is not blank and no turn is in flight) the handler appends the user's message
  and one AI message. When the call to the external model throws, the AI message is the
  fixed text \<^verbatim>\<open>Sorry, I encountered an error connecting to my brain.\<close>; when the
  call returns a response whose text is \<^verbatim>\<open>undefined\<close> or empty, it is the other fixed
  text \<^verbatim>\<open>I couldn't process that request.\<close>; otherwise it is the response's text,
  unchanged.
\<close>

theorem chat_reply_or_fallback:
  \<open>handleChat gen st \<noteq> Rejected \<and>
   (\<not> only_white_space 0 (input st) \<and> \<not> isLoading st \<longrightarrow>
      handleChat gen st =
        Fulfilled
          (st\<lparr>input := [],
              messages := messages st @
                [\<lparr>msg_role = User, msg_text = input st\<rparr>,
                 \<lparr>msg_role = AI,
                   msg_text =
                     (case gen (generateContent_parameters (note_list st) (input st)) of
                        Rejected \<Rightarrow> ''Sorry, I encountered an error connecting to my brain.''
                      | Fulfilled None \<Rightarrow> ''I couldn't process that request.''
                      | Fulfilled (Some t) \<Rightarrow>
                          if t = [] then ''I couldn't process that request.'' else t)\<rparr>],
              isLoading := False\<rparr>,
           [generateContent_parameters (note_list st) (input st)]))\<close>
proof (intro conjI impI)
  show "handleChat gen st \<noteq> Rejected"
    by (cases "only_white_space 0 (input st) \<or> isLoading st")
      (simp_all add: handleChat_idle handleChat_turn)
next
  assume a: "\<not> only_white_space 0 (input st) \<and> \<not> isLoading st"
  have "(case gen (generateContent_parameters (note_list st) (input st)) of
           Rejected \<Rightarrow> ''Sorry, I encountered an error connecting to my brain.''
         | Fulfilled response_text \<Rightarrow> text_or_default response_text) =
        (case gen (generateContent_parameters (note_list st) (input st)) of
           Rejected \<Rightarrow> ''Sorry, I encountered an error connecting to my brain.''
         | Fulfilled None \<Rightarrow> ''I couldn't process that request.''
         | Fulfilled (Some t) \<Rightarrow>
             if t = [] then ''I couldn't process that request.'' else t)"
    by (simp add: text_or_default_def split: settled.splits option.splits)
  then show "handleChat gen st =
        Fulfilled
          (st\<lparr>input := [],
              messages := messages st @
                [\<lparr>msg_role = User, msg_text = input st\<rparr>,
                 \<lparr>msg_role = AI,
                   msg_text =
                     (case gen (generateContent_parameters (note_list st) (input st)) of
                        Rejected \<Rightarrow> ''Sorry, I encountered an error connecting to my brain.''
                      | Fulfilled None \<Rightarrow> ''I couldn't process that request.''
                      | Fulfilled (Some t) \<Rightarrow>
                          if t = [] then ''I couldn't process that request.'' else t)\<rparr>],
              isLoading := False\<rparr>,
           [generateContent_parameters (note_list st) (input st)])"
    using a by (simp add: handleChat_turn)
qed

lemma hi_turn: "\<not> only_white_space 0 (input hi_state) \<and> \<not> isLoading hi_state"
  by (simp add: hi_state_def white_space_length_def white_space_def)

text \<open>C4 as stated fails: there is not one fallback text but two, a thrown call and a
  response without text are answered differently.\<close>

theorem chat_has_two_fallback_texts:
  \<open>handleChat (\<lambda>p. Rejected) hi_state =
     Fulfilled
       (hi_state\<lparr>input := [],
           messages := messages hi_state @
             [\<lparr>msg_role = User, msg_text = ''what do I need?''\<rparr>,
              \<lparr>msg_role = AI, msg_text = ''Sorry, I encountered an error connecting to my brain.''\<rparr>]\<rparr>,
        [generateContent_parameters (note_list hi_state) ''what do I need?'']) \<and>
   handleChat (\<lambda>p. Fulfilled None) hi_state =
     Fulfilled
       (hi_state\<lparr>input := [],
           messages := messages hi_state @
             [\<lparr>msg_role = User, msg_text = ''what do I need?''\<rparr>,
              \<lparr>msg_role = AI, msg_text = ''I couldn't process that request.''\<rparr>]\<rparr>,
        [generateContent_parameters (note_list hi_state) ''what do I need?'']) \<and>
   ''Sorry, I encountered an error connecting to my brain.'' \<noteq> ''I couldn't process that request.''\<close>
  using hi_turn by (simp add: handleChat_turn text_or_default_def) (simp add: hi_state_def)

theorem chat_reply_or_fallback_witness:
  \<open>\<not> only_white_space 0 (input hi_state) \<and> \<not> isLoading hi_state \<and>
   handleChat (\<lambda>p. Fulfilled (Some ''Milk and eggs, love'')) hi_state =
     Fulfilled
       (hi_state\<lparr>input := [],
           messages := messages hi_state @
             [\<lparr>msg_role = User, msg_text = ''what do I need?''\<rparr>,
              \<lparr>msg_role = AI, msg_text = ''Milk and eggs, love''\<rparr>]\<rparr>,
        [generateContent_parameters (note_list hi_state) ''what do I need?''])\<close>
  using chat_reply_or_fallback [of "\<lambda>p. Fulfilled (Some ''Milk and eggs, love'')" hi_state] hi_turn
  by (simp add: hi_state_def)


lemma join_lines:
  "xs \<noteq> [] \<Longrightarrow> join sep xs @ sep = concat (map (\<lambda>x. x @ sep) xs)"
  by (induction sep xs rule: join.induct) simp_all

lemma bullet_block:
  "join ''\<newline>'' (map (\<lambda>n. ''- '' @ content n) ns) @ ''\<newline>'' =
     (if ns = [] then ''\<newline>''
      else concat (map (\<lambda>n. ''- '' @ content n @ ''\<newline>'') ns))"
proof (cases "ns = []")
  case True
  then show ?thesis by simp
next
  case False
  then have "join ''\<newline>'' (map (\<lambda>n. ''- '' @ content n) ns) @ ''\<newline>'' =
      concat (map (\<lambda>x. x @ ''\<newline>'') (map (\<lambda>n. ''- '' @ content n) ns))"
    by (intro join_lines) simp
  also have "\<dots> = concat (map (\<lambda>n. ''- '' @ content n @ ''\<newline>'') ns)"
    by (simp add: comp_def)
  finally show ?thesis using False by simp
qed

lemma prompt_text_lines:
  \<open>prompt_text ns userMessage =
     ''Hey! Here's what I've noted down in our shared space:\<newline>'' @
     ''            '' @
     (if ns = [] then ''\<newline>''
      else concat (map (\<lambda>n. ''- '' @ content n @ ''\<newline>'') ns)) @
     ''            \<newline>'' @
     ''            Can you help me with this? '' @ userMessage\<close>
proof -
  have \<open>prompt_text ns userMessage =
     ''Hey! Here's what I've noted down in our shared space:\<newline>'' @
     ''            '' @
     (join ''\<newline>'' (map (\<lambda>n. ''- '' @ content n) ns) @ ''\<newline>'') @
     ''            \<newline>'' @
     ''            Can you help me with this? '' @ userMessage\<close>
    by (simp add: prompt_text_def)
  then show ?thesis by (simp only: bullet_block)
qed

text \<open>
  C6. On a chat turn the handler makes exactly one call to the external model. Its
  parameters are the model name, the system instruction (the persona text of the source,
  the same on every turn), and a single user content with a single text: the fixed
  opening line, then for each note of the component's state, in the order of the list,
  one line \<^verbatim>\<open>- \<close> followed by the note's content, and the fixed closing line
  followed by the user's message. When the input is blank or a turn is in flight no call
  is made. The calls do not depend on the conversation so far: with any other message
  history the handler makes the same calls.
\<close>

theorem chat_request_is_notes_persona_and_message:
  \<open>(\<not> only_white_space 0 (input st) \<and> \<not> isLoading st \<longrightarrow>
      (\<exists>st'. handleChat gen st =
         Fulfilled
           (st',
            [\<lparr>model = ''gemini-3-flash-preview'',
              contents =
                [\<lparr>content_role = ''user'',
                  parts =
                    [''Hey! Here's what I've noted down in our shared space:\<newline>'' @
                     ''            '' @
                     (if note_list st = [] then ''\<newline>''
                      else concat (map (\<lambda>n. ''- '' @ content n @ ''\<newline>'') (note_list st))) @
                     ''            \<newline>'' @
                     ''            Can you help me with this? '' @ input st]\<rparr>],
              systemInstruction =
                ''You are Pranali, your user's sweet, caring, and super supportive personal partner/best friend. \<newline>'' @
                ''          \<newline>'' @
                ''          Your personality rules:\<newline>'' @
                ''          - Always respond in the SAME LANGUAGE the user uses.\<newline>'' @
                ''          - Use simple, natural, and human language. Avoid all "AI" or "Assistant" phrasing.\<newline>'' @
                ''          - Use emojis naturally to express feelings ('' @ [CHR 0xC3, CHR 0xB0, CHR 0xC5, CHR 0xB8, CHR 0xE2, CHR 0x80, CHR 0x99, CHR 0xE2, CHR 0x80, CHR 0x93] @ '', '' @ [CHR 0xC3, CHR 0xA2, CHR 0xC5, CHR 0x93, CHR 0xC2, CHR 0xA8] @ '', '' @ [CHR 0xC3, CHR 0xB0, CHR 0xC5, CHR 0xB8, CHR 0xC5, CHR 0x92, CHR 0xC2, CHR 0xB8] @ '', '' @ [CHR 0xC3, CHR 0xB0, CHR 0xC5, CHR 0xB8, CHR 0xC2, CHR 0xA5, CHR 0xC2, CHR 0xBA] @ '', '' @ [CHR 0xC3, CHR 0xA2, CHR 0xCB, CHR 0x9C, CHR 0xC3, CHR 0xAF, CHR 0xC2, CHR 0xB8] @ '', etc.).\<newline>'' @
                ''          - Be VERY empathetic. If they sound stressed, tired, or down, be their safe space. Offer comfort and virtual hugs.\<newline>'' @
                ''          - KEEP ANSWERS SHORT. One or two sentences is usually perfect. Don't ramble.\<newline>'' @
                ''          - ANALYZE their tone. If they are happy, be bubbly! If they are low, be gentle and calm.\<newline>'' @
                ''          - Use the "shared space" (notes) naturally: "I remember you said..." or "Wait, didn't we note down...?"\<newline>'' @
                ''          - If information isn't in the notes, just say so sweetly and maybe offer a guess or a supportive word.''\<rparr>]))) \<and>
   (only_white_space 0 (input st) \<or> isLoading st \<longrightarrow> handleChat gen st = Fulfilled (st, [])) \<and>
   (\<forall>history. \<exists>st1 st2 calls.
      handleChat gen st = Fulfilled (st1, calls) \<and>
      handleChat gen (st\<lparr>messages := history\<rparr>) = Fulfilled (st2, calls))\<close>
proof (intro conjI impI allI)
  assume "\<not> only_white_space 0 (input st) \<and> \<not> isLoading st"
  then have "handleChat gen st =
      Fulfilled
        (st\<lparr>input := [],
            messages := messages st @
              [\<lparr>msg_role = User, msg_text = input st\<rparr>,
               \<lparr>msg_role = AI,
                 msg_text =
                   (case gen (generateContent_parameters (note_list st) (input st)) of
                      Rejected \<Rightarrow> ''Sorry, I encountered an error connecting to my brain.''
                    | Fulfilled response_text \<Rightarrow> text_or_default response_text)\<rparr>],
            isLoading := False\<rparr>,
         [generateContent_parameters (note_list st) (input st)])"
    by (simp add: handleChat_turn)
  moreover have \<open>generateContent_parameters (note_list st) (input st) =
      hd [\<lparr>model = ''gemini-3-flash-preview'',
              contents =
                [\<lparr>content_role = ''user'',
                  parts =
                    [''Hey! Here's what I've noted down in our shared space:\<newline>'' @
                     ''            '' @
                     (if note_list st = [] then ''\<newline>''
                      else concat (map (\<lambda>n. ''- '' @ content n @ ''\<newline>'') (note_list st))) @
                     ''            \<newline>'' @
                     ''            Can you help me with this? '' @ input st]\<rparr>],
              systemInstruction =
                ''You are Pranali, your user's sweet, caring, and super supportive personal partner/best friend. \<newline>'' @
                ''          \<newline>'' @
                ''          Your personality rules:\<newline>'' @
                ''          - Always respond in the SAME LANGUAGE the user uses.\<newline>'' @
                ''          - Use simple, natural, and human language. Avoid all "AI" or "Assistant" phrasing.\<newline>'' @
                ''          - Use emojis naturally to express feelings ('' @ [CHR 0xC3, CHR 0xB0, CHR 0xC5, CHR 0xB8, CHR 0xE2, CHR 0x80, CHR 0x99, CHR 0xE2, CHR 0x80, CHR 0x93] @ '', '' @ [CHR 0xC3, CHR 0xA2, CHR 0xC5, CHR 0x93, CHR 0xC2, CHR 0xA8] @ '', '' @ [CHR 0xC3, CHR 0xB0, CHR 0xC5, CHR 0xB8, CHR 0xC5, CHR 0x92, CHR 0xC2, CHR 0xB8] @ '', '' @ [CHR 0xC3, CHR 0xB0, CHR 0xC5, CHR 0xB8, CHR 0xC2, CHR 0xA5, CHR 0xC2, CHR 0xBA] @ '', '' @ [CHR 0xC3, CHR 0xA2, CHR 0xCB, CHR 0x9C, CHR 0xC3, CHR 0xAF, CHR 0xC2, CHR 0xB8] @ '', etc.).\<newline>'' @
                ''          - Be VERY empathetic. If they sound stressed, tired, or down, be their safe space. Offer comfort and virtual hugs.\<newline>'' @
                ''          - KEEP ANSWERS SHORT. One or two sentences is usually perfect. Don't ramble.\<newline>'' @
                ''          - ANALYZE their tone. If they are happy, be bubbly! If they are low, be gentle and calm.\<newline>'' @
                ''          - Use the "shared space" (notes) naturally: "I remember you said..." or "Wait, didn't we note down...?"\<newline>'' @
                ''          - If information isn't in the notes, just say so sweetly and maybe offer a guess or a supportive word.''\<rparr>]\<close>
    by (simp add: generateContent_parameters_def prompt_text_lines system_instruction_text_def)
  ultimately show \<open>\<exists>st'. handleChat gen st =
         Fulfilled
           (st',
            [\<lparr>model = ''gemini-3-flash-preview'',
              contents =
                [\<lparr>content_role = ''user'',
                  parts =
                    [''Hey! Here's what I've noted down in our shared space:\<newline>'' @
                     ''            '' @
                     (if note_list st = [] then ''\<newline>''
                      else concat (map (\<lambda>n. ''- '' @ content n @ ''\<newline>'') (note_list st))) @
                     ''            \<newline>'' @
                     ''            Can you help me with this? '' @ input st]\<rparr>],
              systemInstruction =
                ''You are Pranali, your user's sweet, caring, and super supportive personal partner/best friend. \<newline>'' @
                ''          \<newline>'' @
                ''          Your personality rules:\<newline>'' @
                ''          - Always respond in the SAME LANGUAGE the user uses.\<newline>'' @
                ''          - Use simple, natural, and human language. Avoid all "AI" or "Assistant" phrasing.\<newline>'' @
                ''          - Use emojis naturally to express feelings ('' @ [CHR 0xC3, CHR 0xB0, CHR 0xC5, CHR 0xB8, CHR 0xE2, CHR 0x80, CHR 0x99, CHR 0xE2, CHR 0x80, CHR 0x93] @ '', '' @ [CHR 0xC3, CHR 0xA2, CHR 0xC5, CHR 0x93, CHR 0xC2, CHR 0xA8] @ '', '' @ [CHR 0xC3, CHR 0xB0, CHR 0xC5, CHR 0xB8, CHR 0xC5, CHR 0x92, CHR 0xC2, CHR 0xB8] @ '', '' @ [CHR 0xC3, CHR 0xB0, CHR 0xC5, CHR 0xB8, CHR 0xC2, CHR 0xA5, CHR 0xC2, CHR 0xBA] @ '', '' @ [CHR 0xC3, CHR 0xA2, CHR 0xCB, CHR 0x9C, CHR 0xC3, CHR 0xAF, CHR 0xC2, CHR 0xB8] @ '', etc.).\<newline>'' @
                ''          - Be VERY empathetic. If they sound stressed, tired, or down, be their safe space. Offer comfort and virtual hugs.\<newline>'' @
                ''          - KEEP ANSWERS SHORT. One or two sentences is usually perfect. Don't ramble.\<newline>'' @
                ''          - ANALYZE their tone. If they are happy, be bubbly! If they are low, be gentle and calm.\<newline>'' @
                ''          - Use the "shared space" (notes) naturally: "I remember you said..." or "Wait, didn't we note down...?"\<newline>'' @
                ''          - If information isn't in the notes, just say so sweetly and maybe offer a guess or a supportive word.''\<rparr>])\<close>
    by simp
next
  assume "only_white_space 0 (input st) \<or> isLoading st"
  then show "handleChat gen st = Fulfilled (st, [])"
    by (rule handleChat_idle)
next
  fix history
  show "\<exists>st1 st2 calls.
      handleChat gen st = Fulfilled (st1, calls) \<and>
      handleChat gen (st\<lparr>messages := history\<rparr>) = Fulfilled (st2, calls)"
  proof (cases "only_white_space 0 (input st) \<or> isLoading st")
    case True
    then show ?thesis by (simp add: handleChat_idle)
  next
    case False
    then show ?thesis by (simp add: handleChat_turn)
  qed
qed

lemma three_note_turn:
  "\<not> only_white_space 0 (input three_note_state) \<and> \<not> isLoading three_note_state"
  by (simp add: three_note_state_def white_space_length_def white_space_def)

theorem chat_request_is_notes_persona_and_message_witness:
  \<open>\<not> only_white_space 0 (input three_note_state) \<and> \<not> isLoading three_note_state \<and>
   handleChat (\<lambda>p. Fulfilled (Some ''Tea, eggs and milk, love'')) three_note_state =
     Fulfilled
       (three_note_state\<lparr>input := [],
           messages :=
             [\<lparr>msg_role = User, msg_text = ''shopping?''\<rparr>,
              \<lparr>msg_role = AI, msg_text = ''Tea, eggs and milk, love''\<rparr>]\<rparr>,
        [\<lparr>model = ''gemini-3-flash-preview'',
          contents =
            [\<lparr>content_role = ''user'',
              parts =
                [''Hey! Here's what I've noted down in our shared space:\<newline>'' @
                 ''            - tea\<newline>'' @
                 ''- eggs\<newline>'' @
                 ''- milk\<newline>'' @
                 ''            \<newline>'' @
                 ''            Can you help me with this? shopping?'']\<rparr>],
          systemInstruction =
            ''You are Pranali, your user's sweet, caring, and super supportive personal partner/best friend. \<newline>'' @
            ''          \<newline>'' @
            ''          Your personality rules:\<newline>'' @
            ''          - Always respond in the SAME LANGUAGE the user uses.\<newline>'' @
            ''          - Use simple, natural, and human language. Avoid all "AI" or "Assistant" phrasing.\<newline>'' @
            ''          - Use emojis naturally to express feelings ('' @ [CHR 0xC3, CHR 0xB0, CHR 0xC5, CHR 0xB8, CHR 0xE2, CHR 0x80, CHR 0x99, CHR 0xE2, CHR 0x80, CHR 0x93] @ '', '' @ [CHR 0xC3, CHR 0xA2, CHR 0xC5, CHR 0x93, CHR 0xC2, CHR 0xA8] @ '', '' @ [CHR 0xC3, CHR 0xB0, CHR 0xC5, CHR 0xB8, CHR 0xC5, CHR 0x92, CHR 0xC2, CHR 0xB8] @ '', '' @ [CHR 0xC3, CHR 0xB0, CHR 0xC5, CHR 0xB8, CHR 0xC2, CHR 0xA5, CHR 0xC2, CHR 0xBA] @ '', '' @ [CHR 0xC3, CHR 0xA2, CHR 0xCB, CHR 0x9C, CHR 0xC3, CHR 0xAF, CHR 0xC2, CHR 0xB8] @ '', etc.).\<newline>'' @
            ''          - Be VERY empathetic. If they sound stressed, tired, or down, be their safe space. Offer comfort and virtual hugs.\<newline>'' @
            ''          - KEEP ANSWERS SHORT. One or two sentences is usually perfect. Don't ramble.\<newline>'' @
            ''          - ANALYZE their tone. If they are happy, be bubbly! If they are low, be gentle and calm.\<newline>'' @
            ''          - Use the "shared space" (notes) naturally: "I remember you said..." or "Wait, didn't we note down...?"\<newline>'' @
            ''          - If information isn't in the notes, just say so sweetly and maybe offer a guess or a supportive word.''\<rparr>])\<close>
proof -
  have turn: \<open>handleChat (\<lambda>p. Fulfilled (Some ''Tea, eggs and milk, love'')) three_note_state =
     Fulfilled
       (three_note_state\<lparr>input := [],
           messages :=
             [\<lparr>msg_role = User, msg_text = ''shopping?''\<rparr>,
              \<lparr>msg_role = AI, msg_text = ''Tea, eggs and milk, love''\<rparr>]\<rparr>,
        [generateContent_parameters (note_list three_note_state) (input three_note_state)])\<close>
    using three_note_turn by (simp add: handleChat_turn text_or_default_def) (simp add: three_note_state_def)
  from chat_request_is_notes_persona_and_message
      [of three_note_state "\<lambda>p. Fulfilled (Some ''Tea, eggs and milk, love'')"] three_note_turn
  show ?thesis
    unfolding turn by (simp add: three_note_state_def)
qed

section \<open>Routing\<close>

lemma matches_api_notes_plain: "matches_api_notes ''/api/notes''"
  by (simp add: matches_api_notes_def lower_ascii_def)

lemma not_api_notes: "\<not> matches_api_notes ''/notes''"
  by (simp add: matches_api_notes_def lower_ascii_def)

lemma lower_prefix: "map lower_ascii ''/api/notes/'' = ''/api/notes/''"
  by (simp add: lower_ascii_def)
lemma matches_api_notes_id_plain:
  assumes "seg \<noteq> []" "CHR ''/'' \<notin> set seg"
  shows "matches_api_notes_id (''/api/notes/'' @ seg) = Some seg"
proof -
  have t: "take 11 (''/api/notes/'' @ seg) = ''/api/notes/''" by simp
  have d: "drop 11 (''/api/notes/'' @ seg) = seg" by simp
  have "last seg \<in> set seg"
    using assms(1) by (rule last_in_set)
  with assms(2) have "last seg \<noteq> CHR ''/''"
    by (cases "last seg = CHR ''/''") simp_all
  then show ?thesis
    unfolding matches_api_notes_id_def t d lower_prefix using assms by (simp add: Let_def)
qed

lemma not_api_notes_id: "matches_api_notes_id (''/notes/'' @ seg) = None"
proof -
  have "take 2 (take 11 (''/notes/'' @ seg)) = ''/n''" by simp
  then have "take 2 (map lower_ascii (take 11 (''/notes/'' @ seg))) = map lower_ascii ''/n''"
    by (simp only: take_map)
  moreover have "map lower_ascii ''/n'' = ''/n''" by (simp add: lower_ascii_def)
  moreover have "take 2 ''/api/notes/'' = ''/a''" by simp
  ultimately have "map lower_ascii (take 11 (''/notes/'' @ seg)) \<noteq> ''/api/notes/''"
    by auto
  then show ?thesis by (simp only: matches_api_notes_id_def if_False)
qed
lemma post_response_shapes:
  "(\<exists>rowid c. snd (post_api_notes drv now body db) =
       Json 200 (JObj [(''id'', JNum (of_int rowid)), (''content'', c)])) \<or>
   snd (post_api_notes drv now body db) = Json 400 (JObj [(''error'', JStr ''Content is required'')]) \<or>
   snd (post_api_notes drv now body db) = Error_page 500"
proof (cases "destructure_content body")
  case (Inl e)
  then show ?thesis by (simp add: post_api_notes_def)
next
  case (Inr content)
  show ?thesis
  proof (cases content)
    case None
    with Inr show ?thesis by (simp add: post_api_notes_def content_is_required_def)
  next
    case present: (Some c)
    show ?thesis
    proof (cases "truthy c")
      case False
      with Inr present show ?thesis by (simp add: post_api_notes_def content_is_required_def)
    next
      case True
      show ?thesis
      proof (cases "bound_text drv c")
        case None
        with Inr present True show ?thesis by (simp add: post_driver_refuses)
      next
        case (Some stored)
        with Inr present True
        have "snd (post_api_notes drv now body db) =
          Json 200 (JObj [(''id'', JNum (of_int (max (sqlite_sequence db) (largest_rowid db) + 1))),
                          (''content'', c)])"
          by (simp only: post_inserts snd_conv)
        then show ?thesis by blast
      qed
    qed
  qed
qed

lemma lower_ascii_letters:
  "map lower_ascii ''ABCDEFGHIJKLMNOPQRSTUVWXYZ'' = ''abcdefghijklmnopqrstuvwxyz''"
  by (simp add: lower_ascii_def)

lemma lower_ascii_other:
  assumes "c \<notin> set ''ABCDEFGHIJKLMNOPQRSTUVWXYZ''"
  shows "lower_ascii c = c"
proof -
  have "map_of (zip ''ABCDEFGHIJKLMNOPQRSTUVWXYZ'' ''abcdefghijklmnopqrstuvwxyz'') c = None"
    using assms by simp
  then show ?thesis by (simp only: lower_ascii_def option.case)
qed

lemma matches_api_notes_mixed_case: "matches_api_notes ''/API/Notes/''"
  by (simp add: matches_api_notes_def lower_ascii_def)

lemma matches_api_notes_id_iff:
  "matches_api_notes_id p = Some seg \<longleftrightarrow>
     seg \<noteq> [] \<and> CHR ''/'' \<notin> set seg \<and> map lower_ascii (take 11 p) = ''/api/notes/'' \<and>
     (drop 11 p = seg \<or> drop 11 p = seg @ ''/'')"
proof (cases "map lower_ascii (take 11 p) = ''/api/notes/''")
  case False
  then show ?thesis by (simp add: matches_api_notes_id_def)
next
  case True
  let ?r = "drop 11 p"
  show ?thesis
  proof (cases "?r \<noteq> [] \<and> last ?r = CHR ''/''")
    case slash: True
    then have r: "?r = butlast ?r @ ''/''"
      by (metis append_butlast_last_id)
    have "matches_api_notes_id p = Some seg \<longleftrightarrow>
        butlast ?r \<noteq> [] \<and> CHR ''/'' \<notin> set (butlast ?r) \<and> butlast ?r = seg"
      using True slash by (auto simp add: matches_api_notes_id_def Let_def)
    also have "\<dots> \<longleftrightarrow> seg \<noteq> [] \<and> CHR ''/'' \<notin> set seg \<and> (?r = seg \<or> ?r = seg @ ''/'')"
    proof
      assume a: "butlast ?r \<noteq> [] \<and> CHR ''/'' \<notin> set (butlast ?r) \<and> butlast ?r = seg"
      then have "?r = seg @ ''/''" using r by simp
      with a show "seg \<noteq> [] \<and> CHR ''/'' \<notin> set seg \<and> (?r = seg \<or> ?r = seg @ ''/'')"
        by blast
    next
      assume a: "seg \<noteq> [] \<and> CHR ''/'' \<notin> set seg \<and> (?r = seg \<or> ?r = seg @ ''/'')"
      have "?r \<noteq> seg"
      proof
        assume "?r = seg"
        then have "last seg = CHR ''/''" using slash by simp
        moreover have "last seg \<in> set seg" using a by simp
        ultimately show False using a by simp
      qed
      with a have "?r = seg @ ''/''" by blast
      then have "butlast ?r = seg" by (simp add: butlast_append)
      with a show "butlast ?r \<noteq> [] \<and> CHR ''/'' \<notin> set (butlast ?r) \<and> butlast ?r = seg"
        by simp
    qed
    finally show ?thesis using True by simp
  next
    case noslash: False
    have "matches_api_notes_id p = Some seg \<longleftrightarrow>
        ?r \<noteq> [] \<and> CHR ''/'' \<notin> set ?r \<and> ?r = seg"
      using True noslash by (auto simp add: matches_api_notes_id_def Let_def)
    also have "\<dots> \<longleftrightarrow> seg \<noteq> [] \<and> CHR ''/'' \<notin> set seg \<and> (?r = seg \<or> ?r = seg @ ''/'')"
      using noslash by auto
    finally show ?thesis using True by simp
  qed
qed

lemma app_next_iff:
  "snd (app pf now req db) = Next \<longleftrightarrow>
     \<not> ((req_method req = GET \<or> req_method req = HEAD \<or> req_method req = POST) \<and>
          matches_api_notes (req_path req)) \<and>
     \<not> (req_method req = DELETE \<and> matches_api_notes_id (req_path req) \<noteq> None)"
  using post_response_shapes [of "driver pf" now "req_body req" db]
  by (auto simp add: app_def get_api_notes_def delete_api_notes_id_def split: option.splits)

lemma app_next_unchanged: "snd (app pf now req db) = Next \<Longrightarrow> fst (app pf now req db) = db"
  using post_response_shapes [of "driver pf" now "req_body req" db]
  by (auto simp add: app_def get_api_notes_def delete_api_notes_id_def
      split: if_splits option.splits)

text \<open>
  C5 (as amended). The API has three routes, all under \<^verbatim>\<open>/api/notes\<close>; a path is
  matched without regard to the case of its letters and with or without a slash at its
  end. GET (and HEAD) \<^verbatim>\<open>/api/notes\<close> answers 200 with the array of the notes, each an
  object with \<^verbatim>\<open>id\<close>, \<^verbatim>\<open>content\<close> and \<^verbatim>\<open>created_at\<close>. POST \<^verbatim>\<open>/api/notes\<close>
  runs the create handler on the body and answers with \<^verbatim>\<open>{id, content}\<close>, with the 400
  \<^verbatim>\<open>{error: "Content is required"}\<close>, or with the 500 of an exception. DELETE
  \<^verbatim>\<open>/api/notes/{id}\<close> answers \<^verbatim>\<open>{success: true}\<close> when the id decodes; when its
  percent escapes do not decode, Express answers 400 and the database is untouched. A
  request is passed on exactly when it is none of these, and then the database is
  untouched. The paths \<^verbatim>\<open>/notes\<close> and \<^verbatim>\<open>/notes/{id}\<close> are not routes of the API.
\<close>

theorem api_routes_are_under_api_notes:
  "((req_method req = GET \<or> req_method req = HEAD) \<and> matches_api_notes (req_path req) \<longrightarrow>
      app pf now req db =
        (db, Json 200 (JArr (map (\<lambda>n. JObj [(''id'', JNum (of_int (note_id n))),
                                               (''content'', JStr (content n)),
                                               (''created_at'', JStr (created_at n))])
                                 (select_notes_order_by_created_at_desc db))))) \<and>
   (req_method req = POST \<and> matches_api_notes (req_path req) \<longrightarrow>
      app pf now req db = post_api_notes (driver pf) now (req_body req) db \<and>
      ((\<exists>rowid c. snd (app pf now req db) =
           Json 200 (JObj [(''id'', JNum (of_int rowid)), (''content'', c)])) \<or>
       snd (app pf now req db) = Json 400 (JObj [(''error'', JStr ''Content is required'')]) \<or>
       snd (app pf now req db) = Error_page 500)) \<and>
   (req_method req = DELETE \<and> matches_api_notes_id (req_path req) = Some raw \<and>
      decodeURIComponent pf raw = Some idp \<longrightarrow>
      app pf now req db = delete_api_notes_id (numeric pf) idp db \<and>
      snd (app pf now req db) = Json 200 (JObj [(''success'', JBool True)])) \<and>
   (req_method req = DELETE \<and> matches_api_notes_id (req_path req) = Some raw \<and>
      decodeURIComponent pf raw = None \<longrightarrow>
      app pf now req db = (db, Error_page 400)) \<and>
   (snd (app pf now req db) = Next \<longleftrightarrow>
      \<not> ((req_method req = GET \<or> req_method req = HEAD \<or> req_method req = POST) \<and>
           matches_api_notes (req_path req)) \<and>
      \<not> (req_method req = DELETE \<and> matches_api_notes_id (req_path req) \<noteq> None)) \<and>
   (snd (app pf now req db) = Next \<longrightarrow> fst (app pf now req db) = db) \<and>
   (matches_api_notes p \<longleftrightarrow>
      map lower_ascii p = ''/api/notes'' \<or> map lower_ascii p = ''/api/notes/'') \<and>
   (matches_api_notes_id p = Some seg \<longleftrightarrow>
      seg \<noteq> [] \<and> CHR ''/'' \<notin> set seg \<and> map lower_ascii (take 11 p) = ''/api/notes/'' \<and>
      (drop 11 p = seg \<or> drop 11 p = seg @ ''/'')) \<and>
   map lower_ascii ''ABCDEFGHIJKLMNOPQRSTUVWXYZ'' = ''abcdefghijklmnopqrstuvwxyz'' \<and>
   (c \<notin> set ''ABCDEFGHIJKLMNOPQRSTUVWXYZ'' \<longrightarrow> lower_ascii c = c) \<and>
   matches_api_notes ''/api/notes'' \<and>
   matches_api_notes ''/API/Notes/'' \<and>
   (seg \<noteq> [] \<and> CHR ''/'' \<notin> set seg \<longrightarrow> matches_api_notes_id (''/api/notes/'' @ seg) = Some seg) \<and>
   \<not> matches_api_notes ''/notes'' \<and>
   matches_api_notes_id (''/notes/'' @ seg) = None"
proof (intro conjI impI)
  assume "(req_method req = GET \<or> req_method req = HEAD) \<and> matches_api_notes (req_path req)"
  then show "app pf now req db =
        (db, Json 200 (JArr (map (\<lambda>n. JObj [(''id'', JNum (of_int (note_id n))),
                                               (''content'', JStr (content n)),
                                               (''created_at'', JStr (created_at n))])
                                 (select_notes_order_by_created_at_desc db))))"
    by (auto simp add: app_def get_api_notes_def note_json_def)
next
  assume a: "req_method req = POST \<and> matches_api_notes (req_path req)"
  then show p: "app pf now req db = post_api_notes (driver pf) now (req_body req) db"
    by (simp add: app_def)
  show "(\<exists>rowid c. snd (app pf now req db) =
           Json 200 (JObj [(''id'', JNum (of_int rowid)), (''content'', c)])) \<or>
       snd (app pf now req db) = Json 400 (JObj [(''error'', JStr ''Content is required'')]) \<or>
       snd (app pf now req db) = Error_page 500"
    unfolding p by (rule post_response_shapes)
next
  assume a: "req_method req = DELETE \<and> matches_api_notes_id (req_path req) = Some raw \<and>
      decodeURIComponent pf raw = Some idp"
  then show d: "app pf now req db = delete_api_notes_id (numeric pf) idp db"
    by (simp add: app_def)
  show "snd (app pf now req db) = Json 200 (JObj [(''success'', JBool True)])"
    unfolding d by (simp add: delete_api_notes_id_def)
next
  assume "req_method req = DELETE \<and> matches_api_notes_id (req_path req) = Some raw \<and>
      decodeURIComponent pf raw = None"
  then show "app pf now req db = (db, Error_page 400)"
    by (simp add: app_def)
next
  show "snd (app pf now req db) = Next \<longleftrightarrow>
      \<not> ((req_method req = GET \<or> req_method req = HEAD \<or> req_method req = POST) \<and>
           matches_api_notes (req_path req)) \<and>
      \<not> (req_method req = DELETE \<and> matches_api_notes_id (req_path req) \<noteq> None)"
    by (rule app_next_iff)
next
  assume "snd (app pf now req db) = Next"
  then show "fst (app pf now req db) = db"
    by (rule app_next_unchanged)
next
  show "matches_api_notes p \<longleftrightarrow>
      map lower_ascii p = ''/api/notes'' \<or> map lower_ascii p = ''/api/notes/''"
    by (simp only: matches_api_notes_def)
next
  show "matches_api_notes_id p = Some seg \<longleftrightarrow>
      seg \<noteq> [] \<and> CHR ''/'' \<notin> set seg \<and> map lower_ascii (take 11 p) = ''/api/notes/'' \<and>
      (drop 11 p = seg \<or> drop 11 p = seg @ ''/'')"
    by (rule matches_api_notes_id_iff)
next
  show "map lower_ascii ''ABCDEFGHIJKLMNOPQRSTUVWXYZ'' = ''abcdefghijklmnopqrstuvwxyz''"
    by (rule lower_ascii_letters)
next
  assume "c \<notin> set ''ABCDEFGHIJKLMNOPQRSTUVWXYZ''"
  then show "lower_ascii c = c" by (rule lower_ascii_other)
next
  assume s: "seg \<noteq> [] \<and> CHR ''/'' \<notin> set seg"
  show "matches_api_notes_id (''/api/notes/'' @ seg) = Some seg"
    by (rule matches_api_notes_id_plain) (use s in simp_all)
next
  show "matches_api_notes ''/api/notes''" by (rule matches_api_notes_plain)
next
  show "matches_api_notes ''/API/Notes/''" by (rule matches_api_notes_mixed_case)
next
  show "\<not> matches_api_notes ''/notes''" by (rule not_api_notes)
next
  show "matches_api_notes_id (''/notes/'' @ seg) = None" by (rule not_api_notes_id)
qed

text \<open>C5 as stated fails: requests to \<^verbatim>\<open>/notes\<close> and \<^verbatim>\<open>/notes/1\<close> reach no
  handler. Nothing is listed, created or deleted; they are passed on.\<close>

theorem notes_without_api_prefix_is_no_route:
  "app sample_platform ''2024-05-01 10:00:09''
     \<lparr>req_method = GET, req_path = ''/notes'', req_body = JObj []\<rparr> two_notes = (two_notes, Next) \<and>
   app sample_platform ''2024-05-01 10:00:09''
     \<lparr>req_method = POST, req_path = ''/notes'', req_body = JObj [(''content'', JStr ''tea'')]\<rparr> two_notes
     = (two_notes, Next) \<and>
   app sample_platform ''2024-05-01 10:00:09''
     \<lparr>req_method = DELETE, req_path = ''/notes/1'', req_body = JObj []\<rparr> two_notes = (two_notes, Next)"
  using not_api_notes not_api_notes_id [of "''1''"] by (simp add: app_def)

theorem api_routes_are_under_api_notes_witness:
  "app sample_platform ''2024-05-01 10:00:09''
     \<lparr>req_method = GET, req_path = ''/api/notes'', req_body = JObj []\<rparr> two_notes =
     (two_notes,
      Json 200 (JArr
        [JObj [(''id'', JNum 2), (''content'', JStr ''eggs''), (''created_at'', JStr ''2024-05-01 10:00:07'')],
         JObj [(''id'', JNum 1), (''content'', JStr ''milk''), (''created_at'', JStr ''2024-05-01 10:00:00'')]])) \<and>
   app sample_platform ''2024-05-01 10:00:09''
     \<lparr>req_method = HEAD, req_path = ''/API/Notes/'', req_body = JObj []\<rparr> two_notes =
     (two_notes,
      Json 200 (JArr
        [JObj [(''id'', JNum 2), (''content'', JStr ''eggs''), (''created_at'', JStr ''2024-05-01 10:00:07'')],
         JObj [(''id'', JNum 1), (''content'', JStr ''milk''), (''created_at'', JStr ''2024-05-01 10:00:00'')]])) \<and>
   app sample_platform ''2024-05-01 10:00:09'' (addNote_request ''tea'') two_notes =
     (\<lparr>notes_table = notes_table two_notes @
         [\<lparr>note_id = 3, content = ''tea'', created_at = ''2024-05-01 10:00:09''\<rparr>],
       sqlite_sequence = 3\<rparr>,
      Json 200 (JObj [(''id'', JNum 3), (''content'', JStr ''tea'')])) \<and>
   app sample_platform ''2024-05-01 10:00:09'' (deleteNote_request ''1'') two_notes =
     (\<lparr>notes_table = [\<lparr>note_id = 2, content = ''eggs'', created_at = ''2024-05-01 10:00:07''\<rparr>],
       sqlite_sequence = 2\<rparr>,
      Json 200 (JObj [(''success'', JBool True)])) \<and>
   app (sample_platform\<lparr>decodeURIComponent := (\<lambda>s. None)\<rparr>) ''2024-05-01 10:00:09''
     (deleteNote_request ''%zz'') two_notes = (two_notes, Error_page 400) \<and>
   app sample_platform ''2024-05-01 10:00:09''
     \<lparr>req_method = PUT, req_path = ''/api/notes'', req_body = JObj []\<rparr> two_notes =
     (two_notes, Next)"
proof -
  have listing: "map (\<lambda>n. JObj [(''id'', JNum (of_int (note_id n))),
                                 (''content'', JStr (content n)),
                                 (''created_at'', JStr (created_at n))])
                     (select_notes_order_by_created_at_desc two_notes) =
        [JObj [(''id'', JNum 2), (''content'', JStr ''eggs''), (''created_at'', JStr ''2024-05-01 10:00:07'')],
         JObj [(''id'', JNum 1), (''content'', JStr ''milk''), (''created_at'', JStr ''2024-05-01 10:00:00'')]]"
    by (simp add: select_notes_order_by_created_at_desc_def two_notes_def)
  have g: "app sample_platform ''2024-05-01 10:00:09''
     \<lparr>req_method = GET, req_path = ''/api/notes'', req_body = JObj []\<rparr> two_notes =
     (two_notes,
      Json 200 (JArr
        [JObj [(''id'', JNum 2), (''content'', JStr ''eggs''), (''created_at'', JStr ''2024-05-01 10:00:07'')],
         JObj [(''id'', JNum 1), (''content'', JStr ''milk''), (''created_at'', JStr ''2024-05-01 10:00:00'')]]))"
    using api_routes_are_under_api_notes
      [of "\<lparr>req_method = GET, req_path = ''/api/notes'', req_body = JObj []\<rparr>"
        sample_platform "''2024-05-01 10:00:09''" two_notes]
    by (simp add: listing)
  have h: "app sample_platform ''2024-05-01 10:00:09''
     \<lparr>req_method = HEAD, req_path = ''/API/Notes/'', req_body = JObj []\<rparr> two_notes =
     (two_notes,
      Json 200 (JArr
        [JObj [(''id'', JNum 2), (''content'', JStr ''eggs''), (''created_at'', JStr ''2024-05-01 10:00:07'')],
         JObj [(''id'', JNum 1), (''content'', JStr ''milk''), (''created_at'', JStr ''2024-05-01 10:00:00'')]]))"
    using api_routes_are_under_api_notes
      [of "\<lparr>req_method = HEAD, req_path = ''/API/Notes/'', req_body = JObj []\<rparr>"
        sample_platform "''2024-05-01 10:00:09''" two_notes]
    by (simp add: listing)
  have p: "app sample_platform ''2024-05-01 10:00:09'' (addNote_request ''tea'') two_notes =
     (\<lparr>notes_table = notes_table two_notes @
         [\<lparr>note_id = 3, content = ''tea'', created_at = ''2024-05-01 10:00:09''\<rparr>],
       sqlite_sequence = 3\<rparr>,
      Json 200 (JObj [(''id'', JNum 3), (''content'', JStr ''tea'')]))"
    using api_routes_are_under_api_notes
      [of "addNote_request ''tea''" sample_platform "''2024-05-01 10:00:09''" two_notes]
    by (simp add: addNote_request_def post_api_notes_def insert_into_notes_def largest_rowid_def
        two_notes_def Let_def)
  have m1: "matches_api_notes_id (req_path (deleteNote_request ''1'')) = Some ''1''"
    and mz: "matches_api_notes_id (req_path (deleteNote_request ''%zz'')) = Some ''%zz''"
    unfolding deleteNote_request_def request.select_convs
    by (rule matches_api_notes_id_plain; simp)+
  have d: "app sample_platform ''2024-05-01 10:00:09'' (deleteNote_request ''1'') two_notes =
     (\<lparr>notes_table = [\<lparr>note_id = 2, content = ''eggs'', created_at = ''2024-05-01 10:00:07''\<rparr>],
       sqlite_sequence = 2\<rparr>,
      Json 200 (JObj [(''success'', JBool True)]))"
    using api_routes_are_under_api_notes
      [of "deleteNote_request ''1''" sample_platform "''2024-05-01 10:00:09''" two_notes
        "''1''" "''1''"] m1
    by (simp add: sample_platform_def delete_api_notes_id_def delete_from_notes_def decimal_def
        two_notes_def) (simp add: deleteNote_request_def)
  have z: "app (sample_platform\<lparr>decodeURIComponent := (\<lambda>s. None)\<rparr>) ''2024-05-01 10:00:09''
     (deleteNote_request ''%zz'') two_notes = (two_notes, Error_page 400)"
    using api_routes_are_under_api_notes
      [of "deleteNote_request ''%zz''" "sample_platform\<lparr>decodeURIComponent := (\<lambda>s. None)\<rparr>"
        "''2024-05-01 10:00:09''" two_notes "''%zz''"] mz
    by simp (simp add: deleteNote_request_def)
  have n: "app sample_platform ''2024-05-01 10:00:09''
     \<lparr>req_method = PUT, req_path = ''/api/notes'', req_body = JObj []\<rparr> two_notes =
     (two_notes, Next)"
    using api_routes_are_under_api_notes
      [of "\<lparr>req_method = PUT, req_path = ''/api/notes'', req_body = JObj []\<rparr>"
        sample_platform "''2024-05-01 10:00:09''" two_notes]
    by (simp add: prod_eq_iff)
  show ?thesis using g h p d z n by simp
qed

lemma app_addNote_request:
  assumes "newNote \<noteq> []"
  shows "app pf now (addNote_request newNote) db =
     (\<lparr>notes_table = notes_table db @
          [\<lparr>note_id = max (sqlite_sequence db) (largest_rowid db) + 1,
            content = newNote, created_at = now\<rparr>],
        sqlite_sequence = max (sqlite_sequence db) (largest_rowid db) + 1\<rparr>,
      Json 200 (JObj [(''id'', JNum (of_int (max (sqlite_sequence db) (largest_rowid db) + 1))),
                      (''content'', JStr newNote)]))"
proof -
  have "app pf now (addNote_request newNote) db =
      post_api_notes (driver pf) now (JObj [(''content'', JStr newNote)]) db"
    by (simp add: app_def addNote_request_def matches_api_notes_plain)
  also have "\<dots> =
     (\<lparr>notes_table = notes_table db @
          [\<lparr>note_id = max (sqlite_sequence db) (largest_rowid db) + 1,
            content = newNote, created_at = now\<rparr>],
        sqlite_sequence = max (sqlite_sequence db) (largest_rowid db) + 1\<rparr>,
      Json 200 (JObj [(''id'', JNum (of_int (max (sqlite_sequence db) (largest_rowid db) + 1))),
                      (''content'', JStr newNote)]))"
    using assms by (intro post_inserts) simp_all
  finally show ?thesis .
qed

lemma app_deleteNote_request:
  assumes "i \<noteq> []" "CHR ''/'' \<notin> set i" "decodeURIComponent pf i = Some idp"
  shows "app pf now (deleteNote_request i) db =
     (delete_from_notes (numeric pf) idp db, Json 200 (JObj [(''success'', JBool True)]))"
proof -
  have m: "matches_api_notes_id (req_path (deleteNote_request i)) = Some i"
    unfolding deleteNote_request_def request.select_convs
    using assms(1,2) by (rule matches_api_notes_id_plain)
  have d: "req_method (deleteNote_request i) = DELETE"
    by (simp add: deleteNote_request_def)
  show ?thesis
    using assms(3) by (simp add: app_def m d delete_api_notes_id_def)
qed

text \<open>
  C10. The DELETE handler does not look at its parameter before it uses it: for every
  string \<open>id\<close>, integer or not, a DELETE request for \<^verbatim>\<open>/api/notes/id\<close> runs the
  delete statement with that string and is answered 200 with \<^verbatim>\<open>{success: true}\<close>. A
  string that denotes no integer deletes nothing.
\<close>

theorem delete_takes_any_id_string:
  "(seg \<noteq> [] \<and> CHR ''/'' \<notin> set seg \<and> decodeURIComponent pf seg = Some idp \<longrightarrow>
      app pf now (deleteNote_request seg) db =
        (delete_from_notes (numeric pf) idp db, Json 200 (JObj [(''success'', JBool True)]))) \<and>
   (req_method req = DELETE \<and> matches_api_notes_id (req_path req) = Some raw \<and>
      decodeURIComponent pf raw = Some idp \<longrightarrow>
      app pf now req db =
        (delete_from_notes (numeric pf) idp db, Json 200 (JObj [(''success'', JBool True)]))) \<and>
   delete_api_notes_id num idp db =
     (delete_from_notes num idp db, Json 200 (JObj [(''success'', JBool True)])) \<and>
   (num idp = None \<longrightarrow> delete_from_notes num idp db = db)"
proof (intro conjI impI)
  assume "seg \<noteq> [] \<and> CHR ''/'' \<notin> set seg \<and> decodeURIComponent pf seg = Some idp"
  then show "app pf now (deleteNote_request seg) db =
        (delete_from_notes (numeric pf) idp db, Json 200 (JObj [(''success'', JBool True)]))"
    by (simp add: app_deleteNote_request)
next
  assume "req_method req = DELETE \<and> matches_api_notes_id (req_path req) = Some raw \<and>
      decodeURIComponent pf raw = Some idp"
  then show "app pf now req db =
        (delete_from_notes (numeric pf) idp db, Json 200 (JObj [(''success'', JBool True)]))"
    by (simp add: app_def delete_api_notes_id_def)
next
  show "delete_api_notes_id num idp db =
     (delete_from_notes num idp db, Json 200 (JObj [(''success'', JBool True)]))"
    by (simp add: delete_api_notes_id_def)
next
  assume "num idp = None"
  then show "delete_from_notes num idp db = db"
    by (simp add: delete_from_notes_def)
qed

theorem delete_takes_any_id_string_witness:
  "decimal ''abc'' = None \<and>
   app sample_platform ''2024-05-01 10:00:09'' (deleteNote_request ''abc'') two_notes =
     (two_notes, Json 200 (JObj [(''success'', JBool True)])) \<and>
   app sample_platform ''2024-05-01 10:00:09'' (deleteNote_request ''2'') two_notes =
     (\<lparr>notes_table = [\<lparr>note_id = 1, content = ''milk'', created_at = ''2024-05-01 10:00:00''\<rparr>],
       sqlite_sequence = 2\<rparr>,
      Json 200 (JObj [(''success'', JBool True)]))"
  using delete_takes_any_id_string
      [where seg = "''abc''" and pf = sample_platform and idp = "''abc''" and num = decimal
         and now = "''2024-05-01 10:00:09''" and db = two_notes]
    delete_takes_any_id_string
      [where seg = "''2''" and pf = sample_platform and idp = "''2''"
         and now = "''2024-05-01 10:00:09''" and db = two_notes]
  by (simp add: sample_platform_def decimal_def delete_from_notes_def two_notes_def)

section \<open>Runs of the server\<close>

lemma ids_in_sequence_new: "ids_in_sequence new_database"
  by (simp add: ids_in_sequence_def new_database_def)

lemma app_changes:
  "fst (app pf now req db) = db \<or>
   (\<exists>stored. fst (app pf now req db) = fst (insert_into_notes now stored db)) \<or>
   (\<exists>idp. fst (app pf now req db) = delete_from_notes (numeric pf) idp db)"
proof -
  have "fst (post_api_notes drv now body db) = db \<or>
     (\<exists>stored. fst (post_api_notes drv now body db) = fst (insert_into_notes now stored db))"
    for drv body
    by (auto simp: post_api_notes_def Let_def split: sum.splits option.splits prod.splits)
      (metis fst_conv)
  then show ?thesis
    by (auto simp: app_def get_api_notes_def delete_api_notes_id_def split: option.splits)
qed

lemma insert_ids_in_sequence:
  assumes "ids_in_sequence db"
  shows "ids_in_sequence (fst (insert_into_notes now stored db))"
proof -
  let ?r = "max (sqlite_sequence db) (largest_rowid db) + 1"
  have "\<forall>n \<in> set (notes_table db). note_id n < ?r"
    using fresh_rowid by blast
  then have "?r \<notin> note_id ` set (notes_table db)" by auto
  moreover have "\<forall>n \<in> set (notes_table db). note_id n \<le> ?r"
    using \<open>\<forall>n \<in> set (notes_table db). note_id n < ?r\<close> by (simp add: order.strict_implies_order)
  ultimately show ?thesis
    using assms by (simp add: ids_in_sequence_def insert_into_notes_def Let_def list_all_iff)
qed

lemma delete_ids_in_sequence:
  assumes "ids_in_sequence db"
  shows "ids_in_sequence (delete_from_notes num idp db)"
  using assms by (simp add: ids_in_sequence_def delete_from_notes_def list_all_iff distinct_map_filter)

lemma app_ids_in_sequence:
  assumes "ids_in_sequence db"
  shows "ids_in_sequence (fst (app pf now req db))"
  using app_changes [of pf now req db] assms
  by (auto simp: insert_ids_in_sequence delete_ids_in_sequence)

lemma serve_ids_in_sequence:
  "ids_in_sequence db \<Longrightarrow> ids_in_sequence (serve pf db evs)"
  by (induction pf db evs rule: serve.induct) (simp_all add: app_ids_in_sequence)

lemma app_sequence_mono: "sqlite_sequence db \<le> sqlite_sequence (fst (app pf now req db))"
  using app_changes [of pf now req db]
  by (auto simp: insert_into_notes_def delete_from_notes_def Let_def)

lemma serve_sequence_mono: "sqlite_sequence db \<le> sqlite_sequence (serve pf db evs)"
proof (induction pf db evs rule: serve.induct)
  case (1 pf db)
  then show ?case by simp
next
  case (2 pf db now req rest)
  have "sqlite_sequence db \<le> sqlite_sequence (fst (app pf now req db))"
    by (rule app_sequence_mono)
  also have "\<dots> \<le> sqlite_sequence (serve pf (fst (app pf now req db)) rest)"
    by (rule 2)
  finally show ?case by simp
qed

lemma app_note_old_or_new:
  assumes "n \<in> set (notes_table (fst (app pf now req db)))"
  shows "n \<in> set (notes_table db) \<or>
    (sqlite_sequence db < note_id n \<and> created_at n = now \<and>
     notes_table (fst (app pf now req db)) = notes_table db @ [n])"
  using app_changes [of pf now req db] assms
  by (auto simp: insert_into_notes_def delete_from_notes_def Let_def)

lemma serve_note_old_or_new:
  assumes "n \<in> set (notes_table (serve pf db evs))"
  shows "n \<in> set (notes_table db) \<or> sqlite_sequence db < note_id n"
  using assms
proof (induction pf db evs rule: serve.induct)
  case (1 pf db)
  then show ?case by simp
next
  case (2 pf db now req rest)
  from 2 have "n \<in> set (notes_table (fst (app pf now req db))) \<or>
      sqlite_sequence (fst (app pf now req db)) < note_id n"
    by simp
  then show ?case
  proof
    assume "n \<in> set (notes_table (fst (app pf now req db)))"
    then show ?thesis using app_note_old_or_new by blast
  next
    assume "sqlite_sequence (fst (app pf now req db)) < note_id n"
    then show ?thesis
      using app_sequence_mono [of db pf now req] by simp
  qed
qed

lemma serve_append: "serve pf db (evs @ evs') = serve pf (serve pf db evs) evs'"
  by (induction pf db evs rule: serve.induct) simp_all

lemma same_id_same_note:
  assumes inv: "ids_in_sequence db"
    and n: "n \<in> set (notes_table db)"
    and n': "n' \<in> set (notes_table (serve pf db evs))"
    and eq: "note_id n' = note_id n"
  shows "n' = n"
proof -
  have le: "note_id n \<le> sqlite_sequence db"
    using inv n by (simp add: ids_in_sequence_def list_all_iff)
  have "n' \<in> set (notes_table db)"
    using serve_note_old_or_new [OF n'] le eq by auto
  moreover have "inj_on note_id (set (notes_table db))"
    using inv by (simp add: ids_in_sequence_def distinct_map)
  ultimately show ?thesis
    using n eq by (auto dest: inj_onD)
qed

lemma delete_is_filter_on_id:
  "filter (\<lambda>n. num idp \<noteq> Some (note_id n)) xs = xs \<or>
   (\<exists>i. filter (\<lambda>n. num idp \<noteq> Some (note_id n)) xs = filter (\<lambda>n. note_id n \<noteq> i) xs)"
proof (cases "num idp")
  case None
  then show ?thesis by simp
next
  case (Some i)
  then have "(\<lambda>n. num idp \<noteq> Some (note_id n)) = (\<lambda>n. note_id n \<noteq> i)" by auto
  then have "filter (\<lambda>n. num idp \<noteq> Some (note_id n)) xs = filter (\<lambda>n. note_id n \<noteq> i) xs"
    by (rule arg_cong)
  then show ?thesis by blast
qed

lemma app_table_changes:
  "notes_table (fst (app pf now req db)) = notes_table db \<or>
   (\<exists>n. notes_table (fst (app pf now req db)) = notes_table db @ [n] \<and> created_at n = now) \<or>
   (\<exists>i. notes_table (fst (app pf now req db)) = filter (\<lambda>n. note_id n \<noteq> i) (notes_table db))"
  using app_changes [of pf now req db]
proof (elim disjE exE)
  assume "fst (app pf now req db) = db"
  then show ?thesis by simp
next
  fix stored
  assume "fst (app pf now req db) = fst (insert_into_notes now stored db)"
  then show ?thesis by (simp add: insert_into_notes_def Let_def)
next
  fix idp
  assume "fst (app pf now req db) = delete_from_notes (numeric pf) idp db"
  then have "notes_table (fst (app pf now req db)) =
      filter (\<lambda>n. numeric pf idp \<noteq> Some (note_id n)) (notes_table db)"
    by (simp add: delete_from_notes_def)
  then show ?thesis
    using delete_is_filter_on_id [of "numeric pf" idp "notes_table db"] by auto
qed

text \<open>
  C7. Notes are immutable. In every run of the server from an empty database, a note that
  is in the table at some moment and a note with the same id that is in the table at any
  later moment have the same content and the same \<open>created_at\<close>. A request changes the
  table in one of two ways only, or not at all: it appends one note, stamped with the
  current time, or it removes the notes with one id.
\<close>

theorem notes_are_immutable:
  "(\<forall>n \<in> set (notes_table (serve pf new_database evs)).
      \<forall>n' \<in> set (notes_table (serve pf new_database (evs @ evs'))).
        note_id n' = note_id n \<longrightarrow> content n' = content n \<and> created_at n' = created_at n) \<and>
   (notes_table (fst (app pf now req db)) = notes_table db \<or>
    (\<exists>n. notes_table (fst (app pf now req db)) = notes_table db @ [n] \<and> created_at n = now) \<or>
    (\<exists>i. notes_table (fst (app pf now req db)) = filter (\<lambda>n. note_id n \<noteq> i) (notes_table db)))"
proof
  have "ids_in_sequence (serve pf new_database evs)"
    by (simp add: serve_ids_in_sequence ids_in_sequence_new)
  then show "\<forall>n \<in> set (notes_table (serve pf new_database evs)).
      \<forall>n' \<in> set (notes_table (serve pf new_database (evs @ evs'))).
        note_id n' = note_id n \<longrightarrow> content n' = content n \<and> created_at n' = created_at n"
    unfolding serve_append using same_id_same_note by blast
next
  show "notes_table (fst (app pf now req db)) = notes_table db \<or>
    (\<exists>n. notes_table (fst (app pf now req db)) = notes_table db @ [n] \<and> created_at n = now) \<or>
    (\<exists>i. notes_table (fst (app pf now req db)) = filter (\<lambda>n. note_id n \<noteq> i) (notes_table db))"
    by (rule app_table_changes)
qed

lemma serve_take_sequence:
  "sqlite_sequence (serve pf db (take k evs)) \<le> sqlite_sequence (serve pf db evs)"
proof -
  have "serve pf db evs = serve pf (serve pf db (take k evs)) (drop k evs)"
    by (simp flip: serve_append)
  then show ?thesis
    by (metis serve_sequence_mono)
qed

text \<open>
  C8. In every state the server reaches from an empty database, no two notes share an id;
  and a note that a request adds to the table gets an id strictly larger than the id of
  every note that was in the table at any earlier moment of the run, deleted since or not.
\<close>

theorem ids_are_unique_and_increasing:
  "distinct (map note_id (notes_table (serve pf new_database evs))) \<and>
   (\<forall>n' \<in> set (notes_table (fst (app pf now req (serve pf new_database evs)))).
      n' \<notin> set (notes_table (serve pf new_database evs)) \<longrightarrow>
      (\<forall>k. \<forall>n \<in> set (notes_table (serve pf new_database (take k evs))).
         note_id n < note_id n'))"
proof (intro conjI ballI impI allI)
  show "distinct (map note_id (notes_table (serve pf new_database evs)))"
    using serve_ids_in_sequence [OF ids_in_sequence_new, of pf evs]
    by (simp add: ids_in_sequence_def)
next
  fix n' k n
  assume n': "n' \<in> set (notes_table (fst (app pf now req (serve pf new_database evs))))"
    and new: "n' \<notin> set (notes_table (serve pf new_database evs))"
    and n: "n \<in> set (notes_table (serve pf new_database (take k evs)))"
  have "ids_in_sequence (serve pf new_database (take k evs))"
    by (simp add: serve_ids_in_sequence ids_in_sequence_new)
  then have "note_id n \<le> sqlite_sequence (serve pf new_database (take k evs))"
    using n by (simp add: ids_in_sequence_def list_all_iff)
  also have "\<dots> \<le> sqlite_sequence (serve pf new_database evs)"
    by (rule serve_take_sequence)
  also have "\<dots> < note_id n'"
    using app_note_old_or_new [OF n'] new by blast
  finally show "note_id n < note_id n'" .
qed


lemma serve_two_posts: "serve sample_platform new_database two_posts = two_notes"
  by (simp add: two_posts_def app_addNote_request new_database_def largest_rowid_def two_notes_def)

lemma sample_delete:
  "app sample_platform now (deleteNote_request ''1'') db =
     (delete_from_notes decimal ''1'' db, Json 200 (JObj [(''success'', JBool True)]))"
  "app sample_platform now (deleteNote_request ''2'') db =
     (delete_from_notes decimal ''2'' db, Json 200 (JObj [(''success'', JBool True)]))"
  by (simp_all add: app_deleteNote_request [where idp = "''1''"]
      app_deleteNote_request [where idp = "''2''"] sample_platform_def)

theorem notes_are_immutable_witness:
  "notes_table (serve sample_platform new_database two_posts) =
     [\<lparr>note_id = 1, content = ''milk'', created_at = ''2024-05-01 10:00:00''\<rparr>,
      \<lparr>note_id = 2, content = ''eggs'', created_at = ''2024-05-01 10:00:07''\<rparr>] \<and>
   notes_table (serve sample_platform new_database
       (two_posts @
        [(''2024-05-01 10:00:09'', deleteNote_request ''1''),
         (''2024-05-02 08:30:00'', addNote_request ''tea'')])) =
     [\<lparr>note_id = 2, content = ''eggs'', created_at = ''2024-05-01 10:00:07''\<rparr>,
      \<lparr>note_id = 3, content = ''tea'', created_at = ''2024-05-02 08:30:00''\<rparr>]"
  using notes_are_immutable [of sample_platform two_posts
      "[(''2024-05-01 10:00:09'', deleteNote_request ''1''),
        (''2024-05-02 08:30:00'', addNote_request ''tea'')]"]
  by (simp add: serve_append serve_two_posts sample_delete app_addNote_request
      delete_from_notes_def decimal_def largest_rowid_def two_notes_def)

lemma take_two_posts: "take 2 (two_posts @ later) = two_posts"
  by (simp add: two_posts_def)

theorem ids_are_unique_and_increasing_witness:
  "notes_table (serve sample_platform new_database
       (take 2 (two_posts @ [(''2024-05-01 10:00:09'', deleteNote_request ''2'')]))) =
     [\<lparr>note_id = 1, content = ''milk'', created_at = ''2024-05-01 10:00:00''\<rparr>,
      \<lparr>note_id = 2, content = ''eggs'', created_at = ''2024-05-01 10:00:07''\<rparr>] \<and>
   notes_table (serve sample_platform new_database
       (two_posts @ [(''2024-05-01 10:00:09'', deleteNote_request ''2'')])) =
     [\<lparr>note_id = 1, content = ''milk'', created_at = ''2024-05-01 10:00:00''\<rparr>] \<and>
   notes_table (fst (app sample_platform ''2024-05-02 08:30:00'' (addNote_request ''tea'')
       (serve sample_platform new_database
          (two_posts @ [(''2024-05-01 10:00:09'', deleteNote_request ''2'')])))) =
     [\<lparr>note_id = 1, content = ''milk'', created_at = ''2024-05-01 10:00:00''\<rparr>,
      \<lparr>note_id = 3, content = ''tea'', created_at = ''2024-05-02 08:30:00''\<rparr>] \<and>
   note_id \<lparr>note_id = 2, content = ''eggs'', created_at = ''2024-05-01 10:00:07''\<rparr>
     < note_id \<lparr>note_id = 3, content = ''tea'', created_at = ''2024-05-02 08:30:00''\<rparr>"
proof -
  let ?evs = "two_posts @ [(''2024-05-01 10:00:09'', deleteNote_request ''2'')]"
  let ?tea = "\<lparr>note_id = 3, content = ''tea'', created_at = ''2024-05-02 08:30:00''\<rparr>"
  let ?eggs = "\<lparr>note_id = 2, content = ''eggs'', created_at = ''2024-05-01 10:00:07''\<rparr>"
  have before: "notes_table (serve sample_platform new_database (take 2 ?evs)) =
     [\<lparr>note_id = 1, content = ''milk'', created_at = ''2024-05-01 10:00:00''\<rparr>, ?eggs]"
    by (simp only: take_two_posts serve_two_posts) (simp add: two_notes_def)
  have after: "serve sample_platform new_database ?evs =
     \<lparr>notes_table = [\<lparr>note_id = 1, content = ''milk'', created_at = ''2024-05-01 10:00:00''\<rparr>],
      sqlite_sequence = 2\<rparr>"
    by (simp only: serve_append serve_two_posts)
      (simp add: sample_delete delete_from_notes_def decimal_def two_notes_def)
  have created: "notes_table (fst (app sample_platform ''2024-05-02 08:30:00''
       (addNote_request ''tea'') (serve sample_platform new_database ?evs))) =
     [\<lparr>note_id = 1, content = ''milk'', created_at = ''2024-05-01 10:00:00''\<rparr>, ?tea]"
    by (simp only: after) (simp add: app_addNote_request largest_rowid_def)
  have "?tea \<in> set (notes_table (fst (app sample_platform ''2024-05-02 08:30:00''
       (addNote_request ''tea'') (serve sample_platform new_database ?evs))))"
    by (simp only: created) simp
  moreover have "?tea \<notin> set (notes_table (serve sample_platform new_database ?evs))"
    by (simp only: after) simp
  moreover have "?eggs \<in> set (notes_table (serve sample_platform new_database (take 2 ?evs)))"
    by (simp only: before) simp
  ultimately have "note_id ?eggs < note_id ?tea"
    using ids_are_unique_and_increasing [of sample_platform ?evs "''2024-05-02 08:30:00''" "addNote_request ''tea''"]
    by blast
  with before after created show ?thesis
    by (simp only: database.select_convs simp_thms)
qed
section \<open>Listing after a run\<close>











end
